theory Spec2Isabelle
  imports Main "HOL-Library.Multiset"
begin

section \<open>Values crossing the driver boundary\<close>

text \<open>
  Errors are values. \<open>AssertionError\<close>, \<open>SyntaxError\<close> and \<open>TypeError\<close> are the
  exceptions the JavaScript runtime throws (\<open>assert\<close>, \<open>JSON.parse\<close>, iterating
  \<open>undefined\<close>); \<open>SqliteError\<close> is an error object the sqlite3 driver hands to a
  callback.
\<close>

datatype Error = AssertionError | SyntaxError | TypeError | SqliteError string

text \<open>
  A \<open>Deferred<T[]> | Deferred<void>\<close> of ts-deferred: a promise that is pending, or
  settled once and for all. A void promise resolves with \<open>Void\<close>, a list promise with
  \<open>Data rows\<close>.
\<close>

datatype 't resolution = Void | Data "'t list"

datatype 't Deferred = Pending | Resolved "'t resolution" | Rejected Error

text \<open>Settling a promise that is already settled has no effect.\<close>

definition Deferred_resolve :: "'t Deferred \<Rightarrow> 't resolution \<Rightarrow> 't Deferred" where
  "Deferred_resolve d v = (case d of Pending \<Rightarrow> Resolved v | _ \<Rightarrow> d)"

definition Deferred_reject :: "'t Deferred \<Rightarrow> Error \<Rightarrow> 't Deferred" where
  "Deferred_reject d e = (case d of Pending \<Rightarrow> Rejected e | _ \<Rightarrow> d)"

section \<open>The callback-to-promise bridge: \<open>SqlDB.resolve\<close>\<close>

text \<open>
  The \<open>for (const row of rows) data.push(rowLoader(row))\<close> loop, with \<open>data\<close> as the
  accumulator. A loader that throws ends the loop with its exception.
\<close>

fun push_rows :: "('r \<Rightarrow> Error + 't) \<Rightarrow> 'r list \<Rightarrow> 't list \<Rightarrow> Error + 't list" where
  "push_rows rowLoader [] data = Inr data"
| "push_rows rowLoader (row # rows) data =
     (case rowLoader row of
        Inl ex \<Rightarrow> Inl ex
      | Inr v \<Rightarrow> push_rows rowLoader rows (data @ [v]))"

text \<open>
  \<open>resolve(deferred, error, rows?, rowLoader?)\<close>. The result is \<open>Inr\<close> the promise
  after the call, or \<open>Inl\<close> an exception that escapes the routine and leaves the
  promise as it was: a throwing loader, or a loader given without rows
  (iterating \<open>undefined\<close> throws a TypeError).
\<close>

definition resolve ::
  "'t Deferred \<Rightarrow> Error option \<Rightarrow> 'r list option \<Rightarrow> ('r \<Rightarrow> Error + 't) option
     \<Rightarrow> Error + 't Deferred" where
  "resolve deferred error rows rowLoader =
     (case error of
        Some e \<Rightarrow> Inr (Deferred_reject deferred e)
      | None \<Rightarrow>
          (case rowLoader of
             None \<Rightarrow> Inr (Deferred_resolve deferred Void)
           | Some f \<Rightarrow>
               (case rows of
                  None \<Rightarrow> Inl TypeError
                | Some rs \<Rightarrow>
                    (case push_rows f rs [] of
                       Inl ex \<Rightarrow> Inl ex
                     | Inr data \<Rightarrow> Inr (Deferred_resolve deferred (Data data))))))"

section \<open>Initialisation: \<open>SqlDB.init\<close> and its driver callbacks\<close>

text \<open>
  What the store asks of the sqlite3 driver during initialisation:
  \<open>new sqlite3.Database(dbFileName, mode, callback)\<close> and
  \<open>db.exec(createTables, callback)\<close>. The file name is kept as the two arguments
  of \<open>path.join\<close>; the script is the source's, its line breaks written as spaces.
\<close>

datatype driver_call = OpenDatabase string string nat | ExecScript string

definition OPEN_READWRITE :: nat where "OPEN_READWRITE = 2"
definition OPEN_CREATE :: nat where "OPEN_CREATE = 4"

definition createTables :: string where
  "createTables =
     ''create table TrialJobEvent (timestamp integer, trialJobId text, event text, data text, logPath text); '' @
     ''create index TrialJobEvent_trialJobId on TrialJobEvent(trialJobId); '' @
     ''create index TrialJobEvent_event on TrialJobEvent(event); '' @
     ''create table MetricData (timestamp integer, trialJobId text, parameterId text, type text, sequence integer, data text); '' @
     ''create index MetricData_trialJobId on MetricData(trialJobId); '' @
     ''create index MetricData_type on MetricData(type); '' @
     ''create table ExperimentProfile (params text, id text, execDuration integer, startTime integer, endTime integer, revision integer); '' @
     ''create index ExperimentProfile_id on ExperimentProfile(id);''"

text \<open>
  The fields of one \<open>SqlDB\<close> instance and of the driver behind it.
  \<open>promises\<close> is the heap of \<open>Deferred<void>\<close> objects the instance has created
  (\<open>new Deferred\<close> appends a pending one; an object is its index), so that two
  calls returning the same index return the same promise object.
  \<open>initTask\<close> is \<open>None\<close> while the field is \<open>undefined\<close>.
  \<open>driver_log\<close> records the calls issued to the driver, oldest first.
  \<open>open_cb\<close> and \<open>exec_cb\<close> are the callbacks registered with the driver and not
  yet invoked, each with the variable its closure captured: \<open>createNew\<close> for the
  open callback, the outer \<open>err\<close> for the exec callback.
\<close>

record SqlDB =
  initTask :: "nat option"
  promises :: "unit Deferred list"
  driver_log :: "driver_call list"
  open_cb :: "bool option"
  exec_cb :: "Error option option"

definition new_SqlDB :: SqlDB where
  "new_SqlDB = \<lparr>initTask = None, promises = [], driver_log = [], open_cb = None, exec_cb = None\<rparr>"

text \<open>
  \<open>init(createNew, dbDir)\<close>; \<open>existsSync\<close> is the file system as \<open>fs.existsSync\<close>
  sees it. The call returns a promise (\<open>Inr\<close>) or throws (\<open>Inl\<close>): the assertion
  comes after the assignment to \<open>initTask\<close>.
\<close>

definition init :: "(string \<Rightarrow> bool) \<Rightarrow> bool \<Rightarrow> string \<Rightarrow> SqlDB \<Rightarrow> (Error + nat) \<times> SqlDB" where
  "init existsSync createNew dbDir this =
     (case initTask this of
        Some task \<Rightarrow> (Inr task, this)
      | None \<Rightarrow>
          (let task = length (promises this);
               this1 = this\<lparr>initTask := Some task, promises := promises this @ [Pending]\<rparr>
           in if \<not> existsSync dbDir then (Inl AssertionError, this1)
              else
                (let mode = (if createNew then or OPEN_CREATE OPEN_READWRITE else OPEN_READWRITE)
                 in (Inr task,
                     this1\<lparr>driver_log := driver_log this1 @ [OpenDatabase dbDir ''nni.sqlite'' mode],
                           open_cb := Some createNew\<rparr>))))"

text \<open>
  \<open>this.resolve(this.initTask, err)\<close> on the heap. A callback exists only after
  \<open>init\<close> has assigned \<open>initTask\<close>, so the \<open>None\<close> case is never reached.
\<close>

definition resolve_initTask :: "Error option \<Rightarrow> SqlDB \<Rightarrow> SqlDB" where
  "resolve_initTask err this =
     (case initTask this of
        None \<Rightarrow> this
      | Some task \<Rightarrow>
          (case resolve (promises this ! task) err (None :: unit list option) None of
             Inl ex \<Rightarrow> this
           | Inr d \<Rightarrow> this\<lparr>promises := (promises this)[task := d]\<rparr>))"

text \<open>The driver invokes the open callback with \<open>err\<close>.\<close>

definition open_callback :: "Error option \<Rightarrow> SqlDB \<Rightarrow> SqlDB" where
  "open_callback err this =
     (case open_cb this of
        None \<Rightarrow> this
      | Some createNew \<Rightarrow>
          (let this1 = this\<lparr>open_cb := None\<rparr>
           in if err \<noteq> None then resolve_initTask err this1
              else if createNew then
                this1\<lparr>driver_log := driver_log this1 @ [ExecScript createTables],
                      exec_cb := Some err\<rparr>
              else
                (case initTask this1 of
                   None \<Rightarrow> this1
                 | Some task \<Rightarrow>
                     this1\<lparr>promises :=
                       (promises this1)[task := Deferred_resolve (promises this1 ! task) Void]\<rparr>)))"

text \<open>
  The driver invokes the exec callback with \<open>error\<close>. Its body is
  \<open>this.resolve(this.initTask, err)\<close>: it passes the captured \<open>err\<close> of the open
  callback, not its own parameter.
\<close>

definition exec_callback :: "Error option \<Rightarrow> SqlDB \<Rightarrow> SqlDB" where
  "exec_callback error this =
     (case exec_cb this of
        None \<Rightarrow> this
      | Some err \<Rightarrow> resolve_initTask err (this\<lparr>exec_cb := None\<rparr>))"

text \<open>
  A history of one instance: calls to \<open>init\<close> interleaved with the driver's
  callbacks. \<open>run\<close> returns what each call to \<open>init\<close> returned, in order, and the
  final state.
\<close>

datatype event = Call_init bool string | Open_done "Error option" | Exec_done "Error option"

fun run :: "(string \<Rightarrow> bool) \<Rightarrow> event list \<Rightarrow> SqlDB \<Rightarrow> (Error + nat) list \<times> SqlDB" where
  "run fs [] this = ([], this)"
| "run fs (Call_init createNew dbDir # evs) this =
     (let (r, this1) = init fs createNew dbDir this;
          (rs, this2) = run fs evs this1
      in (r # rs, this2))"
| "run fs (Open_done err # evs) this = run fs evs (open_callback err this)"
| "run fs (Exec_done error # evs) this = run fs evs (exec_callback error this)"

definition opens :: "SqlDB \<Rightarrow> nat" where
  "opens this = length (filter (\<lambda>c. case c of OpenDatabase _ _ _ \<Rightarrow> True | _ \<Rightarrow> False) (driver_log this))"

definition execs :: "SqlDB \<Rightarrow> nat" where
  "execs this = length (filter (\<lambda>c. case c of ExecScript _ \<Rightarrow> True | _ \<Rightarrow> False) (driver_log this))"


definition is_call :: "event \<Rightarrow> bool" where
  "is_call ev = (case ev of Call_init _ _ \<Rightarrow> True | _ \<Rightarrow> False)"

text \<open>
  What holds of an instance throughout every history: before the first call
  nothing has happened; afterwards \<open>initTask\<close> is the one promise ever created,
  and the driver has been asked to open at most once and to run the script at
  most once, the script only after the open callback has fired.
\<close>

definition init_inv :: "SqlDB \<Rightarrow> bool" where
  "init_inv this =
     (case initTask this of
        None \<Rightarrow> promises this = [] \<and> driver_log this = [] \<and> open_cb this = None \<and> exec_cb this = None
      | Some task \<Rightarrow> task = 0 \<and> length (promises this) = 1 \<and> opens this \<le> 1 \<and> execs this \<le> 1 \<and>
          (open_cb this \<noteq> None \<longrightarrow> execs this = 0))"

section \<open>JSON values and the runtime's \<open>JSON\<close> object\<close>

text \<open>
  The values \<open>JSON.parse\<close> can return. Numbers are integers here; fractional
  numbers are outside this development. An object keeps its members in the
  order written.
\<close>

datatype json =
    JNull
  | JBool bool
  | JNumber int
  | JString string
  | JArray "json list"
  | JObject "(string \<times> json) list"

text \<open>
  \<open>JSON.parse\<close> and \<open>JSON.stringify\<close> belong to the JavaScript runtime, not to the
  store, so every operation that uses them takes them as a parameter \<open>J\<close>.
  \<open>JSON_parse J s\<close> is \<open>Inl SyntaxError\<close> where \<open>JSON.parse(s)\<close> throws.
\<close>

record JSON =
  JSON_parse :: "string \<Rightarrow> Error + json"
  JSON_stringify :: "json \<Rightarrow> string"

text \<open>
  Reading one of the properties \<open>trialJobId\<close>, \<open>parameterId\<close>, \<open>type\<close>,
  \<open>sequence\<close>, \<open>data\<close> of a parsed value other than \<open>null\<close>: \<open>None\<close> is
  \<open>undefined\<close>. Of two members with the same key the later one counts. None of
  these five names is a property of a boolean, number, string or array.
\<close>

fun member_of :: "json \<Rightarrow> string \<Rightarrow> json option" where
  "member_of (JObject kvs) k = map_of (rev kvs) k"
| "member_of _ k = None"

section \<open>Column values and rows\<close>

datatype sqlval = SNull | SInteger int | SText string

text \<open>Decimal digits of a number, as \<open>String(n)\<close> prints an integer.\<close>

fun show_nat :: "nat \<Rightarrow> string" where
  "show_nat n = (if n < 10 then [char_of (48 + n)] else show_nat (n div 10) @ [char_of (48 + n mod 10)])"

declare show_nat.simps [simp del]

definition show_int :: "int \<Rightarrow> string" where
  "show_int i = (if i < 0 then CHR ''-'' # show_nat (nat (- i)) else show_nat (nat i))"

fun join :: "string \<Rightarrow> string list \<Rightarrow> string" where
  "join sep [] = []"
| "join sep [x] = x"
| "join sep (x # y # ys) = x @ sep @ join sep (y # ys)"

text \<open>\<open>String(v)\<close> for a parsed value; inside an array \<open>null\<close> prints as nothing.\<close>

fun js_String :: "json \<Rightarrow> string" where
  "js_String JNull = ''null''"
| "js_String (JBool b) = (if b then ''true'' else ''false'')"
| "js_String (JNumber n) = show_int n"
| "js_String (JString s) = s"
| "js_String (JArray xs) = join '','' (map (\<lambda>x. if x = JNull then [] else js_String x) xs)"
| "js_String (JObject kvs) = ''[object Object]''"

text \<open>
  How the driver binds one element of \<open>args\<close> to a \<open>?\<close>: \<open>undefined\<close> and
  \<open>null\<close> bind NULL, a boolean binds 0 or 1, an object binds its string form.
  Values are stored as bound; SQLite's column affinity is not modelled.
\<close>

fun bind_parameter :: "json option \<Rightarrow> sqlval" where
  "bind_parameter None = SNull"
| "bind_parameter (Some JNull) = SNull"
| "bind_parameter (Some (JBool b)) = SInteger (if b then 1 else 0)"
| "bind_parameter (Some (JNumber n)) = SInteger n"
| "bind_parameter (Some (JString s)) = SText s"
| "bind_parameter (Some v) = SText (js_String v)"

text \<open>A JavaScript \<open>Date\<close>, as its epoch milliseconds: \<open>new Date(n).getTime() = n\<close>.\<close>

datatype Date = Date (getTime: int)

type_synonym TrialJobEvent = string
type_synonym MetricType = string

record ExperimentProfile =
  exp_params :: json
  exp_id :: string
  exp_execDuration :: int
  exp_startTime :: "Date option"
  exp_endTime :: "Date option"
  exp_revision :: int

record TrialJobEventRecord =
  ev_timestamp :: Date
  ev_trialJobId :: string
  ev_event :: TrialJobEvent
  ev_data :: "string option"
  ev_logPath :: "string option"

record MetricDataRecord =
  md_timestamp :: Date
  md_trialJobId :: sqlval
  md_parameterId :: sqlval
  md_type :: sqlval
  md_sequence :: sqlval
  md_data :: "string option"

text \<open>
  One row of each table of \<open>createTables\<close>; \<open>None\<close> in a column is NULL. The
  columns of \<open>ExperimentProfile\<close> and \<open>TrialJobEvent\<close> only ever receive the typed
  arguments of their store operation; four columns of \<open>MetricData\<close> receive whatever
  the parsed envelope holds.
\<close>

record ExperimentProfile_row =
  col_params :: string
  col_id :: string
  col_execDuration :: int
  col_startTime :: "int option"
  col_endTime :: "int option"
  col_revision :: int

record TrialJobEvent_row =
  tcol_timestamp :: int
  tcol_trialJobId :: string
  tcol_event :: string
  tcol_data :: "string option"
  tcol_logPath :: "string option"

record MetricData_row =
  mcol_timestamp :: int
  mcol_trialJobId :: sqlval
  mcol_parameterId :: sqlval
  mcol_type :: sqlval
  mcol_sequence :: sqlval
  mcol_data :: "string option"

record database =
  ExperimentProfile_table :: "ExperimentProfile_row list"
  TrialJobEvent_table :: "TrialJobEvent_row list"
  MetricData_table :: "MetricData_row list"

section \<open>Row loaders\<close>

definition loadExperimentProfile :: "JSON \<Rightarrow> ExperimentProfile_row \<Rightarrow> Error + ExperimentProfile" where
  "loadExperimentProfile J row =
     (case JSON_parse J (col_params row) of
        Inl ex \<Rightarrow> Inl ex
      | Inr p \<Rightarrow>
          Inr \<lparr>exp_params = p,
               exp_id = col_id row,
               exp_execDuration = col_execDuration row,
               exp_startTime = (case col_startTime row of None \<Rightarrow> None | Some t \<Rightarrow> Some (Date t)),
               exp_endTime = (case col_endTime row of None \<Rightarrow> None | Some t \<Rightarrow> Some (Date t)),
               exp_revision = col_revision row\<rparr>)"

definition loadTrialJobEvent :: "TrialJobEvent_row \<Rightarrow> Error + TrialJobEventRecord" where
  "loadTrialJobEvent row =
     Inr \<lparr>ev_timestamp = Date (tcol_timestamp row),
          ev_trialJobId = tcol_trialJobId row,
          ev_event = tcol_event row,
          ev_data = (case tcol_data row of None \<Rightarrow> None | Some d \<Rightarrow> Some d),
          ev_logPath = (case tcol_logPath row of None \<Rightarrow> None | Some l \<Rightarrow> Some l)\<rparr>"

definition loadMetricData :: "MetricData_row \<Rightarrow> Error + MetricDataRecord" where
  "loadMetricData row =
     Inr \<lparr>md_timestamp = Date (mcol_timestamp row),
          md_trialJobId = mcol_trialJobId row,
          md_parameterId = mcol_parameterId row,
          md_type = mcol_type row,
          md_sequence = mcol_sequence row,
          md_data = mcol_data row\<rparr>"

section \<open>The driver on one connection\<close>

text \<open>
  The store hands the driver a statement, its arguments and a callback. The
  driver runs the statement and invokes the callback; the connection runs one
  statement at a time, so each operation below is the call together with its
  callback. \<open>fault\<close> is the engine's verdict on the statement: \<open>Some e\<close> when it fails
  with \<open>e\<close>, leaving the tables as they were.

  \<open>db_run\<close> is \<open>insert into T values (?, ...)\<close> through \<open>db.run\<close>: it appends the
  row and calls back with the error or \<open>null\<close>.
  \<open>db_all\<close> is a \<open>select\<close> through \<open>db.all\<close>: it calls back with the selected rows,
  or with an error and no rows.
\<close>

definition db_run :: "Error option \<Rightarrow> 'row \<Rightarrow> 'row list \<Rightarrow> Error option \<times> 'row list" where
  "db_run fault row tbl = (case fault of Some e \<Rightarrow> (Some e, tbl) | None \<Rightarrow> (None, tbl @ [row]))"

definition db_all :: "Error option \<Rightarrow> 'row list \<Rightarrow> Error option \<times> 'row list option" where
  "db_all fault rows = (case fault of Some e \<Rightarrow> (Some e, None) | None \<Rightarrow> (None, Some rows))"

text \<open>
  \<open>where\<close> keeps the rows satisfying the condition, in table order.
  \<open>order by c DESC\<close> is a sort on the negated key; the engine does not promise
  an order among rows with equal keys, and no result below depends on it.
\<close>

definition sql_where :: "('row \<Rightarrow> bool) \<Rightarrow> 'row list \<Rightarrow> 'row list" where
  "sql_where cond tbl = filter cond tbl"

definition order_by_DESC :: "('row \<Rightarrow> int) \<Rightarrow> 'row list \<Rightarrow> 'row list" where
  "order_by_DESC c rows = sort_key (\<lambda>r. - c r) rows"

text \<open>
  What a call does: it throws, or it returns a promise. \<open>Returns d\<close> gives the
  promise's state once the driver's callback has run; a callback that throws
  leaves the promise pending.
\<close>

datatype 't returned = Throws Error | Returns "'t Deferred"

definition after_callback :: "Error + 't Deferred \<Rightarrow> 't returned" where
  "after_callback r = (case r of Inl ex \<Rightarrow> Returns Pending | Inr d \<Rightarrow> Returns d)"

section \<open>ExperimentProfile operations\<close>

definition storeExperimentProfile ::
  "JSON \<Rightarrow> Error option \<Rightarrow> ExperimentProfile \<Rightarrow> database \<Rightarrow> unit returned \<times> database" where
  "storeExperimentProfile J fault exp db =
     (let args = \<lparr>col_params = JSON_stringify J (exp_params exp),
                  col_id = exp_id exp,
                  col_execDuration = exp_execDuration exp,
                  col_startTime = (case exp_startTime exp of None \<Rightarrow> None | Some d \<Rightarrow> Some (getTime d)),
                  col_endTime = (case exp_endTime exp of None \<Rightarrow> None | Some d \<Rightarrow> Some (getTime d)),
                  col_revision = exp_revision exp\<rparr>;
          (err, tbl) = db_run fault args (ExperimentProfile_table db)
      in (after_callback (resolve Pending err (None :: unit list option) None),
          db\<lparr>ExperimentProfile_table := tbl\<rparr>))"

definition queryExperimentProfile ::
  "JSON \<Rightarrow> Error option \<Rightarrow> string \<Rightarrow> int option \<Rightarrow> database \<Rightarrow> ExperimentProfile returned" where
  "queryExperimentProfile J fault experimentId revision db =
     (let selected =
            (case revision of
               None \<Rightarrow>
                 order_by_DESC col_revision
                   (sql_where (\<lambda>r. col_id r = experimentId) (ExperimentProfile_table db))
             | Some n \<Rightarrow>
                 sql_where (\<lambda>r. col_id r = experimentId \<and> col_revision r = n)
                   (ExperimentProfile_table db));
          (err, rows) = db_all fault selected
      in after_callback (resolve Pending err rows (Some (loadExperimentProfile J))))"

text \<open>
  An \<open>async\<close> function: its promise is pending, fulfilled or rejected.
  \<open>profiles[0]\<close> of an empty array is \<open>undefined\<close>, here \<open>None\<close>.
\<close>

datatype 'a settled = Unsettled | Fulfilled 'a | Failed Error

definition queryLatestExperimentProfile ::
  "JSON \<Rightarrow> Error option \<Rightarrow> string \<Rightarrow> database \<Rightarrow> ExperimentProfile option settled" where
  "queryLatestExperimentProfile J fault experimentId db =
     (case queryExperimentProfile J fault experimentId None db of
        Throws ex \<Rightarrow> Failed ex
      | Returns Pending \<Rightarrow> Unsettled
      | Returns (Rejected e) \<Rightarrow> Failed e
      | Returns (Resolved Void) \<Rightarrow> Failed TypeError
      | Returns (Resolved (Data profiles)) \<Rightarrow>
          Fulfilled (case profiles of [] \<Rightarrow> None | p # _ \<Rightarrow> Some p))"

section \<open>TrialJobEvent operations\<close>

text \<open>\<open>now\<close> is the value of \<open>Date.now()\<close> at the call.\<close>

definition storeTrialJobEvent ::
  "int \<Rightarrow> Error option \<Rightarrow> TrialJobEvent \<Rightarrow> string \<Rightarrow> string option \<Rightarrow> string option \<Rightarrow> database
     \<Rightarrow> unit returned \<times> database" where
  "storeTrialJobEvent now fault event trialJobId data logPath db =
     (let args = \<lparr>tcol_timestamp = now, tcol_trialJobId = trialJobId, tcol_event = event,
                  tcol_data = data, tcol_logPath = logPath\<rparr>;
          (err, tbl) = db_run fault args (TrialJobEvent_table db)
      in (after_callback (resolve Pending err (None :: unit list option) None),
          db\<lparr>TrialJobEvent_table := tbl\<rparr>))"

definition queryTrialJobEvent ::
  "Error option \<Rightarrow> string option \<Rightarrow> TrialJobEvent option \<Rightarrow> database \<Rightarrow> TrialJobEventRecord returned" where
  "queryTrialJobEvent fault trialJobId event db =
     (let selected =
            (if trialJobId = None \<and> event = None then TrialJobEvent_table db
             else if trialJobId = None then
               sql_where (\<lambda>r. tcol_event r = the event) (TrialJobEvent_table db)
             else if event = None then
               sql_where (\<lambda>r. tcol_trialJobId r = the trialJobId) (TrialJobEvent_table db)
             else
               sql_where (\<lambda>r. tcol_trialJobId r = the trialJobId \<and> tcol_event r = the event)
                 (TrialJobEvent_table db));
          (err, rows) = db_all fault selected
      in after_callback (resolve Pending err rows (Some loadTrialJobEvent)))"

section \<open>MetricData operations\<close>

text \<open>
  \<open>JSON.parse(data)\<close> runs before the promise exists, so its exception leaves
  \<open>storeMetricData\<close> itself; so does reading a property of \<open>null\<close>.
  \<open>metric_args\<close> is the array \<open>args\<close>, one column each; \<open>JSON.stringify(json.data)\<close>
  of a missing \<open>data\<close> is \<open>undefined\<close>, bound as NULL.
  The parameter \<open>trialJobId\<close> is not used.
\<close>

definition metric_args :: "JSON \<Rightarrow> int \<Rightarrow> json \<Rightarrow> MetricData_row" where
  "metric_args J now json =
     \<lparr>mcol_timestamp = now,
      mcol_trialJobId = bind_parameter (member_of json ''trialJobId''),
      mcol_parameterId = bind_parameter (member_of json ''parameterId''),
      mcol_type = bind_parameter (member_of json ''type''),
      mcol_sequence = bind_parameter (member_of json ''sequence''),
      mcol_data = (case member_of json ''data'' of
                     None \<Rightarrow> None
                   | Some payload \<Rightarrow> Some (JSON_stringify J payload))\<rparr>"

definition storeMetricData ::
  "JSON \<Rightarrow> int \<Rightarrow> Error option \<Rightarrow> string \<Rightarrow> string \<Rightarrow> database \<Rightarrow> unit returned \<times> database" where
  "storeMetricData J now fault trialJobId data db =
     (case JSON_parse J data of
        Inl ex \<Rightarrow> (Throws ex, db)
      | Inr JNull \<Rightarrow> (Throws TypeError, db)
      | Inr json \<Rightarrow>
          (let args = metric_args J now json;
               (err, tbl) = db_run fault args (MetricData_table db)
           in (after_callback (resolve Pending err (None :: unit list option) None),
               db\<lparr>MetricData_table := tbl\<rparr>)))"

definition queryMetricData ::
  "Error option \<Rightarrow> string option \<Rightarrow> MetricType option \<Rightarrow> database \<Rightarrow> MetricDataRecord returned" where
  "queryMetricData fault trialJobId metricType db =
     (let selected =
            (if metricType = None \<and> trialJobId = None then MetricData_table db
             else if trialJobId = None then
               sql_where (\<lambda>r. mcol_type r = SText (the metricType)) (MetricData_table db)
             else if metricType = None then
               sql_where (\<lambda>r. mcol_trialJobId r = SText (the trialJobId)) (MetricData_table db)
             else
               sql_where (\<lambda>r. mcol_trialJobId r = SText (the trialJobId) \<and>
                                mcol_type r = SText (the metricType))
                 (MetricData_table db));
          (err, rows) = db_all fault selected
      in after_callback (resolve Pending err rows (Some loadMetricData)))"

definition empty_database :: database where
  "empty_database = \<lparr>ExperimentProfile_table = [], TrialJobEvent_table = [], MetricData_table = []\<rparr>"

section \<open>A reference \<open>JSON\<close> object\<close>

text \<open>
  One concrete \<open>JSON\<close> object, for running the operations on concrete inputs:
  a printer and a recursive-descent parser for JSON texts whose numbers are
  integers and whose \<open>\u\<close> escapes stay within one byte. The results about the
  store hold for every \<open>J\<close>; this one only instantiates them.
\<close>

definition is_ws :: "char \<Rightarrow> bool" where
  "is_ws c = (c = CHR '' '' \<or> c = CHR 0x09 \<or> c = CHR 0x0A \<or> c = CHR 0x0D)"

definition skip_ws :: "string \<Rightarrow> string" where
  "skip_ws s = dropWhile is_ws s"

definition is_digit :: "char \<Rightarrow> bool" where
  "is_digit c = (48 \<le> (of_char c :: nat) \<and> (of_char c :: nat) \<le> 57)"

definition digits_value :: "string \<Rightarrow> nat" where
  "digits_value ds = foldl (\<lambda>a c. 10 * a + (of_char c - 48)) 0 ds"

definition hex_digit :: "nat \<Rightarrow> char" where
  "hex_digit n = (if n < 10 then char_of (48 + n) else char_of (87 + n))"

definition hex_value :: "char \<Rightarrow> nat option" where
  "hex_value c =
     (let n = (of_char c :: nat)
      in if 48 \<le> n \<and> n \<le> 57 then Some (n - 48)
         else if 97 \<le> n \<and> n \<le> 102 then Some (n - 87)
         else if 65 \<le> n \<and> n \<le> 70 then Some (n - 55)
         else None)"

definition escape_char :: "char \<Rightarrow> string" where
  "escape_char c =
     (if c = CHR 0x22 then [CHR 0x5C, CHR 0x22]
      else if c = CHR 0x5C then [CHR 0x5C, CHR 0x5C]
      else if c = CHR 0x08 then [CHR 0x5C, CHR ''b'']
      else if c = CHR 0x0C then [CHR 0x5C, CHR ''f'']
      else if c = CHR 0x0A then [CHR 0x5C, CHR ''n'']
      else if c = CHR 0x0D then [CHR 0x5C, CHR ''r'']
      else if c = CHR 0x09 then [CHR 0x5C, CHR ''t'']
      else if (of_char c :: nat) < 32 then
        [CHR 0x5C, CHR ''u'', CHR ''0'', CHR ''0'',
         hex_digit (of_char c div 16), hex_digit (of_char c mod 16)]
      else [c])"

definition quote :: "string \<Rightarrow> string" where
  "quote s = CHR 0x22 # concat (map escape_char s) @ [CHR 0x22]"

fun std_stringify :: "json \<Rightarrow> string" where
  "std_stringify JNull = ''null''"
| "std_stringify (JBool b) = (if b then ''true'' else ''false'')"
| "std_stringify (JNumber n) = show_int n"
| "std_stringify (JString s) = quote s"
| "std_stringify (JArray xs) = ''['' @ join '','' (map std_stringify xs) @ '']''"
| "std_stringify (JObject kvs) =
     ''{'' @ join '','' (map (\<lambda>(k, v). quote k @ '':'' @ std_stringify v) kvs) @ ''}''"

text \<open>The characters of a string literal after its opening quote.\<close>

fun parse_chars :: "string \<Rightarrow> string \<Rightarrow> (string \<times> string) option" where
  "parse_chars [] acc = None"
| "parse_chars (c # cs) acc =
     (if c = CHR 0x22 then Some (acc, cs)
      else if c = CHR 0x5C then
        (case cs of
           [] \<Rightarrow> None
         | e # cs1 \<Rightarrow>
             if e = CHR 0x22 \<or> e = CHR 0x5C \<or> e = CHR ''/'' then parse_chars cs1 (acc @ [e])
             else if e = CHR ''b'' then parse_chars cs1 (acc @ [CHR 0x08])
             else if e = CHR ''f'' then parse_chars cs1 (acc @ [CHR 0x0C])
             else if e = CHR ''n'' then parse_chars cs1 (acc @ [CHR 0x0A])
             else if e = CHR ''r'' then parse_chars cs1 (acc @ [CHR 0x0D])
             else if e = CHR ''t'' then parse_chars cs1 (acc @ [CHR 0x09])
             else if e = CHR ''u'' then
               (case cs1 of
                  a # b # c1 # d # cs2 \<Rightarrow>
                    (case (hex_value a, hex_value b, hex_value c1, hex_value d) of
                       (Some 0, Some 0, Some h, Some l) \<Rightarrow> parse_chars cs2 (acc @ [char_of (16 * h + l)])
                     | _ \<Rightarrow> None)
                | _ \<Rightarrow> None)
             else None)
      else if (of_char c :: nat) < 32 then None
      else parse_chars cs (acc @ [c]))"

definition parse_number :: "string \<Rightarrow> (json \<times> string) option" where
  "parse_number s =
     (let negative = (s \<noteq> [] \<and> hd s = CHR ''-'');
          body = (if negative then tl s else s);
          ds = takeWhile is_digit body;
          rest = dropWhile is_digit body
      in if ds = [] \<or> (length ds > 1 \<and> hd ds = CHR ''0'') then None
         else if rest \<noteq> [] \<and> (hd rest = CHR ''.'' \<or> hd rest = CHR ''e'' \<or> hd rest = CHR ''E'') then None
         else Some (JNumber (if negative then - int (digits_value ds) else int (digits_value ds)), rest))"

definition expect :: "char \<Rightarrow> string \<Rightarrow> string option" where
  "expect c s = (case skip_ws s of [] \<Rightarrow> None | d # r \<Rightarrow> if d = c then Some r else None)"

definition literal :: "string \<Rightarrow> string \<Rightarrow> string option" where
  "literal w s = (if take (length w) s = w then Some (drop (length w) s) else None)"

fun parse_value :: "nat \<Rightarrow> string \<Rightarrow> (json \<times> string) option"
  and parse_elements :: "nat \<Rightarrow> string \<Rightarrow> (json list \<times> string) option"
  and parse_members :: "nat \<Rightarrow> string \<Rightarrow> ((string \<times> json) list \<times> string) option" where
  "parse_value 0 s = None"
| "parse_value (Suc n) s =
     (case skip_ws s of
        [] \<Rightarrow> None
      | c # cs \<Rightarrow>
          if c = CHR ''{'' then
            (case expect CHR ''}'' cs of
               Some r \<Rightarrow> Some (JObject [], r)
             | None \<Rightarrow> map_option (\<lambda>(kvs, r). (JObject kvs, r)) (parse_members n cs))
          else if c = CHR ''['' then
            (case expect CHR '']'' cs of
               Some r \<Rightarrow> Some (JArray [], r)
             | None \<Rightarrow> map_option (\<lambda>(vs, r). (JArray vs, r)) (parse_elements n cs))
          else if c = CHR 0x22 then map_option (\<lambda>(str, r). (JString str, r)) (parse_chars cs [])
          else if c = CHR ''n'' then map_option (Pair JNull) (literal ''null'' (c # cs))
          else if c = CHR ''t'' then map_option (Pair (JBool True)) (literal ''true'' (c # cs))
          else if c = CHR ''f'' then map_option (Pair (JBool False)) (literal ''false'' (c # cs))
          else parse_number (c # cs))"
| "parse_elements 0 s = None"
| "parse_elements (Suc n) s =
     (case parse_value n s of
        None \<Rightarrow> None
      | Some (v, r) \<Rightarrow>
          (case expect CHR '','' r of
             Some r1 \<Rightarrow> map_option (\<lambda>(vs, r2). (v # vs, r2)) (parse_elements n r1)
           | None \<Rightarrow> map_option (Pair [v]) (expect CHR '']'' r)))"
| "parse_members 0 s = None"
| "parse_members (Suc n) s =
     (case expect CHR 0x22 s of
        None \<Rightarrow> None
      | Some cs \<Rightarrow>
          (case parse_chars cs [] of
             None \<Rightarrow> None
           | Some (k, r) \<Rightarrow>
               (case expect CHR '':'' r of
                  None \<Rightarrow> None
                | Some r1 \<Rightarrow>
                    (case parse_value n r1 of
                       None \<Rightarrow> None
                     | Some (v, r2) \<Rightarrow>
                         (case expect CHR '','' r2 of
                            Some r3 \<Rightarrow> map_option (\<lambda>(kvs, r4). ((k, v) # kvs, r4)) (parse_members n r3)
                          | None \<Rightarrow> map_option (Pair [(k, v)]) (expect CHR ''}'' r2))))))"

definition std_parse :: "string \<Rightarrow> Error + json" where
  "std_parse s =
     (case parse_value (2 * length s + 2) s of
        None \<Rightarrow> Inl SyntaxError
      | Some (v, r) \<Rightarrow> if skip_ws r = [] then Inr v else Inl SyntaxError)"

definition JSON_std :: JSON where
  "JSON_std = \<lparr>JSON_parse = std_parse, JSON_stringify = std_stringify\<rparr>"

section \<open>Example stores\<close>

text \<open>
  The stores of the specification's testable properties: three revisions of
  experiment \<open>exp1\<close> inserted in the order 1, 3, 2, and the three trial-job events
  \<open>(t1, RUNNING)\<close>, \<open>(t1, SUCCEEDED)\<close>, \<open>(t2, RUNNING)\<close>.
\<close>

definition example_profile :: "int \<Rightarrow> ExperimentProfile" where
  "example_profile n =
     \<lparr>exp_params = JObject [(''lr'', JNumber 1), (''layers'', JArray [JNumber 1, JNumber 2, JNumber 3])],
      exp_id = ''exp1'', exp_execDuration = 0,
      exp_startTime = Some (Date 1500000000000), exp_endTime = None, exp_revision = n\<rparr>"

definition example_profiles :: database where
  "example_profiles =
     snd (storeExperimentProfile JSON_std None (example_profile 2)
       (snd (storeExperimentProfile JSON_std None (example_profile 3)
         (snd (storeExperimentProfile JSON_std None (example_profile 1) empty_database)))))"

definition example_events :: database where
  "example_events =
     snd (storeTrialJobEvent 1003 None ''RUNNING'' ''t2'' None None
       (snd (storeTrialJobEvent 1002 None ''SUCCEEDED'' ''t1'' (Some ''done'') None
         (snd (storeTrialJobEvent 1001 None ''RUNNING'' ''t1'' None None empty_database)))))"

text \<open>
  Three metric reports: a periodic and a final one for trial \<open>t1\<close>, a periodic
  one for trial \<open>t2\<close>.
\<close>

definition example_metrics :: database where
  \<open>example_metrics =
     snd (storeMetricData JSON_std 2003 None ''t2''
            ''{"trialJobId":"t2","parameterId":"1","type":"PERIODICAL","sequence":0,"data":3}''
       (snd (storeMetricData JSON_std 2002 None ''t1''
            ''{"trialJobId":"t1","parameterId":"0","type":"FINAL","sequence":0,"data":9}''
         (snd (storeMetricData JSON_std 2001 None ''t1''
            ''{"trialJobId":"t1","parameterId":"0","type":"PERIODICAL","sequence":0,"data":5}''
            empty_database)))))\<close>

section \<open>Properties of the bridge\<close>

lemma push_rows_total:
  "\<forall>r \<in> set rows. rowLoader r = Inr (g r) \<Longrightarrow>
     push_rows rowLoader rows data = Inr (data @ map g rows)"
  by (induction rows arbitrary: data) auto

lemma push_rows_throws:
  "rowLoader r = Inl ex \<Longrightarrow> r \<in> set rows \<Longrightarrow> \<exists>ex'. push_rows rowLoader rows data = Inl ex'"
  by (induction rows arbitrary: data) (auto split: sum.splits)

lemma resolve_loaded:
  "map rowLoader rows = map Inr recs \<Longrightarrow>
     after_callback (resolve Pending None (Some rows) (Some rowLoader)) = Returns (Resolved (Data recs))"
proof -
  assume m: "map rowLoader rows = map Inr recs"
  define g where "g = (\<lambda>r. projr (rowLoader r))"
  have len: "length rows = length recs"
    using m by (metis length_map)
  have each: "\<forall>i < length rows. rowLoader (rows ! i) = Inr (recs ! i)"
  proof (intro allI impI)
    fix i assume i: "i < length rows"
    then have "rowLoader (rows ! i) = map rowLoader rows ! i" by simp
    also have "\<dots> = map Inr recs ! i" by (simp only: m)
    also have "\<dots> = Inr (recs ! i)" using i len by simp
    finally show "rowLoader (rows ! i) = Inr (recs ! i)" .
  qed
  have "\<forall>r \<in> set rows. rowLoader r = Inr (g r)"
    using each by (auto simp: g_def in_set_conv_nth)
  then have "push_rows rowLoader rows [] = Inr (map g rows)"
    using push_rows_total [of rows rowLoader g "[]"] by simp
  moreover have "map g rows = recs"
    using each len by (intro nth_equalityI) (simp_all add: g_def)
  ultimately show ?thesis
    by (simp add: resolve_def after_callback_def Deferred_resolve_def)
qed

lemma loaders_total:
  "\<forall>r \<in> set rows. \<exists>v. rowLoader r = Inr v \<Longrightarrow> \<exists>recs. map rowLoader rows = map Inr recs"
proof (induction rows)
  case Nil
  show ?case by simp
next
  case (Cons r rows)
  then obtain recs v where "map rowLoader rows = map Inr recs" "rowLoader r = Inr v"
    by auto
  then have "map rowLoader (r # rows) = map Inr (v # recs)" by simp
  then show ?case by blast
qed

text \<open>
  Claim C8. For every error value, row list and row loader, the resolution
  routine called on a pending promise: with a non-null error rejects the promise
  with that error, whatever the rows and the loader; with no error and no
  loader resolves it as a void promise; with no error and a loader that returns
  on every row resolves it with the loaded rows, as many as the raw rows and in
  their order.
\<close>

theorem resolve_bridge:
  "resolve Pending (Some e) rows rowLoader = Inr (Rejected e) \<and>
   resolve Pending None rows (None :: ('r \<Rightarrow> Error + 't) option) = Inr (Resolved Void) \<and>
   ((\<forall>r \<in> set rs. \<exists>v. f r = Inr v) \<longrightarrow>
      (\<exists>data. resolve Pending None (Some rs) (Some f) = Inr (Resolved (Data data)) \<and>
              length data = length rs \<and>
              (\<forall>i < length rs. f (rs ! i) = Inr (data ! i))))"
proof (intro conjI impI)
  show "resolve Pending (Some e) rows rowLoader = Inr (Rejected e)"
    by (simp add: resolve_def Deferred_reject_def)
  show "resolve Pending None rows (None :: ('r \<Rightarrow> Error + 't) option) = Inr (Resolved Void)"
    by (simp add: resolve_def Deferred_resolve_def)
next
  assume total: "\<forall>r \<in> set rs. \<exists>v. f r = Inr v"
  define g where "g = (\<lambda>r. projr (f r))"
  have "\<forall>r \<in> set rs. f r = Inr (g r)"
    using total by (auto simp: g_def)
  then have loop: "push_rows f rs [] = Inr (map g rs)"
    and each: "\<forall>i < length rs. f (rs ! i) = Inr (map g rs ! i)"
    using push_rows_total [of rs f g "[]"] by simp_all
  have "resolve Pending None (Some rs) (Some f) = Inr (Resolved (Data (map g rs)))"
    by (simp add: resolve_def loop Deferred_resolve_def)
  with each show "\<exists>data. resolve Pending None (Some rs) (Some f) = Inr (Resolved (Data data)) \<and>
              length data = length rs \<and> (\<forall>i < length rs. f (rs ! i) = Inr (data ! i))"
    by (intro exI [of _ "map g rs"]) simp
qed

theorem resolve_bridge_witness:
  "resolve Pending (Some (SqliteError ''SQLITE_BUSY'')) (Some [1, 2 :: nat]) (Some (\<lambda>n. Inr (Suc n) :: Error + nat))
     = Inr (Rejected (SqliteError ''SQLITE_BUSY'')) \<and>
   resolve (Pending :: nat Deferred) None (Some [1, 2 :: nat]) None = Inr (Resolved Void) \<and>
   (\<exists>data. resolve Pending None (Some [1, 2 :: nat]) (Some (\<lambda>n. Inr (Suc n) :: Error + nat))
             = Inr (Resolved (Data data)) \<and>
           length data = length [1, 2 :: nat] \<and>
           (\<forall>i < length [1, 2 :: nat]. (Inr (Suc ([1, 2] ! i)) :: Error + nat) = Inr (data ! i)))"
proof -
  have total: "\<forall>r \<in> set [1, 2 :: nat]. \<exists>v. (Inr (Suc r) :: Error + nat) = Inr v"
    by simp
  show ?thesis
    using resolve_bridge [where e = "SqliteError ''SQLITE_BUSY''" and rows = "Some [1, 2 :: nat]"
        and rowLoader = "Some (\<lambda>n. Inr (Suc n) :: Error + nat)"
        and rs = "[1, 2 :: nat]" and f = "\<lambda>n. Inr (Suc n) :: Error + nat"] total
    by blast
qed

section \<open>Initialisation is single-flight\<close>

lemma init_inv_new: "init_inv new_SqlDB"
  by (simp add: init_inv_def new_SqlDB_def)

lemma init_started: "initTask this = Some task \<Longrightarrow> init fs createNew dbDir this = (Inr task, this)"
  by (simp add: init_def)

lemma init_first:
  "init_inv this \<Longrightarrow> initTask this = None \<Longrightarrow> init fs createNew dbDir this = (r, this') \<Longrightarrow>
     r = (if fs dbDir then Inr 0 else Inl AssertionError) \<and> initTask this' = Some 0 \<and> init_inv this'"
  by (auto simp: init_def init_inv_def Let_def opens_def execs_def split: if_splits)

lemma resolve_initTask_fields:
  "initTask (resolve_initTask err this) = initTask this"
  "driver_log (resolve_initTask err this) = driver_log this"
  "open_cb (resolve_initTask err this) = open_cb this"
  "exec_cb (resolve_initTask err this) = exec_cb this"
  "length (promises (resolve_initTask err this)) = length (promises this)"
  by (auto simp: resolve_initTask_def split: option.splits sum.splits)

lemma open_callback_inv:
  "init_inv this \<Longrightarrow> init_inv (open_callback err this) \<and> initTask (open_callback err this) = initTask this"
  by (auto simp: open_callback_def init_inv_def Let_def opens_def execs_def resolve_initTask_fields
      split: option.splits)

lemma exec_callback_inv:
  "init_inv this \<Longrightarrow> init_inv (exec_callback error this) \<and> initTask (exec_callback error this) = initTask this"
  by (auto simp: exec_callback_def init_inv_def Let_def opens_def execs_def resolve_initTask_fields
      split: option.splits)

lemma run_Call:
  "run fs (Call_init createNew dbDir # evs) this =
     (fst (init fs createNew dbDir this) # fst (run fs evs (snd (init fs createNew dbDir this))),
      snd (run fs evs (snd (init fs createNew dbDir this))))"
  by (simp add: case_prod_beta)

lemma run_append:
  "run fs (xs @ ys) this =
     (fst (run fs xs this) @ fst (run fs ys (snd (run fs xs this))),
      snd (run fs ys (snd (run fs xs this))))"
proof (induction xs arbitrary: this)
  case Nil
  show ?case by simp
next
  case (Cons ev xs)
  show ?case
    by (cases ev) (simp_all only: append_Cons run_Call run.simps Cons.IH fst_conv snd_conv)
qed

lemma run_started:
  "init_inv this \<Longrightarrow> initTask this = Some 0 \<Longrightarrow>
     (\<forall>r \<in> set (fst (run fs evs this)). r = Inr 0) \<and>
     init_inv (snd (run fs evs this)) \<and> initTask (snd (run fs evs this)) = Some 0"
proof (induction evs arbitrary: this)
  case Nil
  then show ?case by simp
next
  case (Cons ev evs)
  show ?case
  proof (cases ev)
    case (Call_init createNew dbDir)
    have "init fs createNew dbDir this = (Inr 0, this)"
      using Cons.prems by (simp add: init_started)
    then show ?thesis
      using Cons.IH [OF Cons.prems] Call_init by (simp only: run_Call fst_conv snd_conv) simp
  next
    case (Open_done err)
    then show ?thesis
      using Cons.IH [of "open_callback err this"] open_callback_inv [of this err] Cons.prems
      by simp
  next
    case (Exec_done error)
    then show ?thesis
      using Cons.IH [of "exec_callback error this"] exec_callback_inv [of this error] Cons.prems
      by simp
  qed
qed

lemma run_no_call:
  "init_inv this \<Longrightarrow> initTask this = None \<Longrightarrow> \<forall>ev \<in> set evs. \<not> is_call ev \<Longrightarrow>
     run fs evs this = ([], this)"
proof (induction evs)
  case Nil
  show ?case by simp
next
  case (Cons ev evs)
  have idle: "open_cb this = None" "exec_cb this = None"
    using Cons.prems by (simp_all add: init_inv_def)
  show ?case
  proof (cases ev)
    case (Call_init createNew dbDir)
    then show ?thesis using Cons.prems by (simp add: is_call_def)
  next
    case (Open_done err)
    then show ?thesis using Cons idle by (simp add: open_callback_def)
  next
    case (Exec_done error)
    then show ?thesis using Cons idle by (simp add: exec_callback_def)
  qed
qed

lemma run_from_first_call:
  assumes "\<forall>ev \<in> set pre. \<not> is_call ev"
  shows "fst (run fs (pre @ Call_init createNew dbDir # evs) new_SqlDB) =
           (if fs dbDir then Inr 0 else Inl AssertionError) #
             fst (run fs evs (snd (init fs createNew dbDir new_SqlDB)))"
    and "snd (run fs (pre @ Call_init createNew dbDir # evs) new_SqlDB) =
           snd (run fs evs (snd (init fs createNew dbDir new_SqlDB)))"
    and "init_inv (snd (init fs createNew dbDir new_SqlDB))"
    and "initTask (snd (init fs createNew dbDir new_SqlDB)) = Some 0"
proof -
  have pre: "run fs pre new_SqlDB = ([], new_SqlDB)"
    using run_no_call [OF init_inv_new _ assms] by (simp add: new_SqlDB_def)
  obtain r this1 where i: "init fs createNew dbDir new_SqlDB = (r, this1)"
    by force
  have first: "r = (if fs dbDir then Inr 0 else Inl AssertionError) \<and> initTask this1 = Some 0 \<and> init_inv this1"
    using init_first [OF init_inv_new _ i] by (simp add: new_SqlDB_def)
  show "fst (run fs (pre @ Call_init createNew dbDir # evs) new_SqlDB) =
           (if fs dbDir then Inr 0 else Inl AssertionError) #
             fst (run fs evs (snd (init fs createNew dbDir new_SqlDB)))"
    using first by (simp only: run_append pre run_Call i fst_conv snd_conv) simp
  show "snd (run fs (pre @ Call_init createNew dbDir # evs) new_SqlDB) =
           snd (run fs evs (snd (init fs createNew dbDir new_SqlDB)))"
    by (simp only: run_append pre run_Call i fst_conv snd_conv)
  show "init_inv (snd (init fs createNew dbDir new_SqlDB))"
    and "initTask (snd (init fs createNew dbDir new_SqlDB)) = Some 0"
    using first i by simp_all
qed

text \<open>
  Claim C2. Take any history of one fresh instance that contains a call to
  \<open>init\<close>: driver callbacks \<open>pre\<close>, the first call, and anything after it.
  The first call returns promise 0, the one it created (or throws the assertion
  error when its directory does not exist). Every later call returns that same
  promise 0, so when the first call returns, all calls return the same object.
  The driver is asked to open the file at most once and to run the schema script
  at most once, and a call after the first changes nothing: the state after it,
  driver log included, is the state before it.
\<close>

theorem init_single_flight:
  assumes "\<forall>ev \<in> set pre. \<not> is_call ev"
    and "run fs (pre @ Call_init createNew dbDir # post) new_SqlDB = (rs, this')"
  shows "hd rs = (if fs dbDir then Inr 0 else Inl AssertionError) \<and>
         (\<forall>r \<in> set (tl rs). r = Inr 0) \<and>
         (fs dbDir \<longrightarrow> (\<forall>r \<in> set rs. r = hd rs)) \<and>
         opens this' \<le> 1 \<and> execs this' \<le> 1 \<and>
         (\<forall>evs c d.
            snd (run fs (pre @ Call_init createNew dbDir # evs @ [Call_init c d]) new_SqlDB) =
            snd (run fs (pre @ Call_init createNew dbDir # evs) new_SqlDB))"
proof -
  let ?this1 = "snd (init fs createNew dbDir new_SqlDB)"
  note first = run_from_first_call [OF assms(1), of fs createNew dbDir]
  have started: "\<And>evs. (\<forall>r \<in> set (fst (run fs evs ?this1)). r = Inr 0) \<and>
      init_inv (snd (run fs evs ?this1)) \<and> initTask (snd (run fs evs ?this1)) = Some 0"
    using run_started [OF first(3) first(4)] by blast
  have rs: "rs = (if fs dbDir then Inr 0 else Inl AssertionError) # fst (run fs post ?this1)"
    and this': "this' = snd (run fs post ?this1)"
    using first(1) [of post] first(2) [of post] assms(2) by simp_all
  have "init_inv this'" "initTask this' = Some 0"
    using started [of post] this' by simp_all
  then have counts: "opens this' \<le> 1 \<and> execs this' \<le> 1"
    by (simp add: init_inv_def)
  have later: "snd (run fs (pre @ Call_init createNew dbDir # evs @ [Call_init c d]) new_SqlDB) =
            snd (run fs (pre @ Call_init createNew dbDir # evs) new_SqlDB)" for evs c d
  proof -
    have "initTask (snd (run fs evs ?this1)) = Some 0"
      using started [of evs] by simp
    then have "init fs c d (snd (run fs evs ?this1)) = (Inr 0, snd (run fs evs ?this1))"
      by (rule init_started)
    then have "snd (run fs (evs @ [Call_init c d]) ?this1) = snd (run fs evs ?this1)"
      by (simp only: run_append run_Call run.simps fst_conv snd_conv)
    then show ?thesis
      using first(2) [of "evs @ [Call_init c d]"] first(2) [of evs] by simp
  qed
  show ?thesis
    using rs started [of post] counts later by simp
qed

theorem init_single_flight_witness:
  "run (\<lambda>d. d = ''/data'')
       [Open_done None, Call_init True ''/data'', Call_init False ''/tmp'', Open_done None,
        Call_init True ''/data'', Exec_done None, Call_init True ''/data''] new_SqlDB
     = ([Inr 0, Inr 0, Inr 0, Inr 0],
        \<lparr>initTask = Some 0, promises = [Resolved Void],
         driver_log = [OpenDatabase ''/data'' ''nni.sqlite'' 6, ExecScript createTables],
         open_cb = None, exec_cb = None\<rparr>) \<and>
   opens \<lparr>initTask = Some 0, promises = [Resolved Void],
         driver_log = [OpenDatabase ''/data'' ''nni.sqlite'' 6, ExecScript createTables],
         open_cb = None, exec_cb = None\<rparr> \<le> 1"
proof -
  have r: "run (\<lambda>d. d = ''/data'')
       ([Open_done None] @ Call_init True ''/data'' # [Call_init False ''/tmp'', Open_done None,
        Call_init True ''/data'', Exec_done None, Call_init True ''/data'']) new_SqlDB
     = ([Inr 0, Inr 0, Inr 0, Inr 0],
        \<lparr>initTask = Some 0, promises = [Resolved Void],
         driver_log = [OpenDatabase ''/data'' ''nni.sqlite'' 6, ExecScript createTables],
         open_cb = None, exec_cb = None\<rparr>)"
    by (simp add: new_SqlDB_def init_def Let_def open_callback_def exec_callback_def
        resolve_initTask_def resolve_def Deferred_resolve_def OPEN_CREATE_def OPEN_READWRITE_def)
  have p: "\<forall>ev \<in> set [Open_done None]. \<not> is_call ev"
    by (simp add: is_call_def)
  show ?thesis
    using init_single_flight [OF p r] r by simp
qed

text \<open>
  Claim C1, at the input where it fails. \<open>init(true, dir)\<close> on an existing
  directory; the open succeeds; the schema script fails with error \<open>e\<close>. The
  exec callback passes the open callback's \<open>err\<close>, which is \<open>null\<close>, so the
  shared promise is resolved, not rejected with \<open>e\<close>.
\<close>

theorem init_exec_error_resolves:
  "fst (run (\<lambda>d. True) [Call_init True dbDir, Open_done None, Exec_done (Some e)] new_SqlDB) = [Inr 0] \<and>
   promises (snd (run (\<lambda>d. True) [Call_init True dbDir, Open_done None, Exec_done (Some e)] new_SqlDB)) ! 0
     = Resolved Void"
  by (simp add: new_SqlDB_def init_def Let_def open_callback_def exec_callback_def
      resolve_initTask_def resolve_def Deferred_resolve_def)

section \<open>ExperimentProfile queries\<close>

lemma order_by_DESC_mset: "mset (order_by_DESC c rows) = mset rows"
  by (simp add: order_by_DESC_def)

lemma order_by_DESC_sorted: "sorted_wrt (\<lambda>a b. c b \<le> c a) (order_by_DESC c rows)"
proof -
  have "sorted (map (\<lambda>r. - c r) (order_by_DESC c rows))"
    unfolding order_by_DESC_def by (rule sorted_sort_key)
  then show ?thesis
    by (simp add: sorted_map)
qed

lemma loadExperimentProfile_fields:
  "loadExperimentProfile J row = Inr p \<Longrightarrow>
     exp_id p = col_id row \<and> exp_revision p = col_revision row \<and>
     exp_execDuration p = col_execDuration row \<and>
     JSON_parse J (col_params row) = Inr (exp_params p) \<and>
     exp_startTime p = map_option Date (col_startTime row) \<and>
     exp_endTime p = map_option Date (col_endTime row)"
  by (auto simp: loadExperimentProfile_def split: sum.splits option.splits)

lemma loadExperimentProfile_total:
  "JSON_parse J (col_params row) = Inr v \<Longrightarrow> \<exists>p. loadExperimentProfile J row = Inr p"
  by (simp add: loadExperimentProfile_def)

lemma loaded_sorted:
  "map (loadExperimentProfile J) rows = map Inr profiles \<Longrightarrow>
     sorted_wrt (\<lambda>a b. col_revision b \<le> col_revision a) rows \<Longrightarrow>
     sorted_wrt (\<lambda>p q. exp_revision q \<le> exp_revision p) profiles"
proof (induction rows arbitrary: profiles)
  case Nil
  then show ?case by simp
next
  case (Cons r rows)
  then obtain p ps where ps: "profiles = p # ps" "loadExperimentProfile J r = Inr p"
    "map (loadExperimentProfile J) rows = map Inr ps"
    by (cases profiles) auto
  have tail: "sorted_wrt (\<lambda>p q. exp_revision q \<le> exp_revision p) ps"
    using Cons.IH [OF ps(3)] Cons.prems(2) by simp
  have head: "exp_revision q \<le> exp_revision p" if "q \<in> set ps" for q
  proof -
    from that obtain i where i: "i < length ps" "ps ! i = q"
      by (auto simp: in_set_conv_nth)
    have len: "length rows = length ps" using ps(3) by (metis length_map)
    have "loadExperimentProfile J (rows ! i) = map (loadExperimentProfile J) rows ! i"
      using i len by simp
    also have "\<dots> = map Inr ps ! i" by (simp only: ps(3))
    also have "\<dots> = Inr q" using i by simp
    finally have "loadExperimentProfile J (rows ! i) = Inr q" .
    then have "exp_revision q = col_revision (rows ! i)"
      by (simp add: loadExperimentProfile_fields)
    moreover have "col_revision (rows ! i) \<le> col_revision r"
      using Cons.prems(2) i len by simp
    moreover have "exp_revision p = col_revision r"
      using ps(2) by (simp add: loadExperimentProfile_fields)
    ultimately show ?thesis by simp
  qed
  show ?case using ps(1) tail head by simp
qed


lemma query_by_id:
  assumes "\<forall>r \<in> set (ExperimentProfile_table db). col_id r = experimentId \<longrightarrow>
             (\<exists>p. JSON_parse J (col_params r) = Inr p)"
  shows "\<exists>rows profiles.
            queryExperimentProfile J None experimentId None db = Returns (Resolved (Data profiles)) \<and>
            map (loadExperimentProfile J) rows = map Inr profiles \<and>
            mset rows = mset (filter (\<lambda>r. col_id r = experimentId) (ExperimentProfile_table db)) \<and>
            sorted_wrt (\<lambda>a b. col_revision b \<le> col_revision a) rows \<and>
            sorted_wrt (\<lambda>p q. exp_revision q \<le> exp_revision p) profiles"
proof -
  let ?tbl = "ExperimentProfile_table db"
  let ?rows = "order_by_DESC col_revision (filter (\<lambda>r. col_id r = experimentId) ?tbl)"
  have ms: "mset ?rows = mset (filter (\<lambda>r. col_id r = experimentId) ?tbl)"
    by (rule order_by_DESC_mset)
  then have "set ?rows = set (filter (\<lambda>r. col_id r = experimentId) ?tbl)"
    by (rule mset_eq_setD)
  then have "\<forall>r \<in> set ?rows. \<exists>v. loadExperimentProfile J r = Inr v"
    using assms by (auto intro: loadExperimentProfile_total)
  then obtain profiles where l: "map (loadExperimentProfile J) ?rows = map Inr profiles"
    using loaders_total by blast
  have q: "queryExperimentProfile J None experimentId None db = Returns (Resolved (Data profiles))"
    using resolve_loaded [OF l] by (simp add: queryExperimentProfile_def db_all_def sql_where_def)
  have s: "sorted_wrt (\<lambda>a b. col_revision b \<le> col_revision a) ?rows"
    by (rule order_by_DESC_sorted)
  show ?thesis
    using q l ms s loaded_sorted [OF l s] by blast
qed

lemma query_by_id_revision:
  assumes "\<forall>r \<in> set (ExperimentProfile_table db). col_id r = experimentId \<and> col_revision r = revision \<longrightarrow>
             (\<exists>p. JSON_parse J (col_params r) = Inr p)"
  shows "\<exists>profiles.
            queryExperimentProfile J None experimentId (Some revision) db = Returns (Resolved (Data profiles)) \<and>
            map (loadExperimentProfile J)
              (filter (\<lambda>r. col_id r = experimentId \<and> col_revision r = revision) (ExperimentProfile_table db))
              = map Inr profiles"
proof -
  let ?rows = "filter (\<lambda>r. col_id r = experimentId \<and> col_revision r = revision) (ExperimentProfile_table db)"
  have "\<forall>r \<in> set ?rows. \<exists>v. loadExperimentProfile J r = Inr v"
    using assms by (auto intro: loadExperimentProfile_total)
  then obtain profiles where l: "map (loadExperimentProfile J) ?rows = map Inr profiles"
    using loaders_total by blast
  have "queryExperimentProfile J None experimentId (Some revision) db = Returns (Resolved (Data profiles))"
    using resolve_loaded [OF l] by (simp add: queryExperimentProfile_def db_all_def sql_where_def)
  with l show ?thesis by blast
qed

lemma parse_ok_from_list_all:
  "list_all (\<lambda>r. \<not> isl (JSON_parse J (col_params r))) tbl \<Longrightarrow>
     \<forall>r \<in> set tbl. P r \<longrightarrow> (\<exists>p. JSON_parse J (col_params r) = Inr p)"
  by (metis list_all_iff sum.collapse(2))


lemma load_stored_profile:
  assumes "JSON_parse J (JSON_stringify J (exp_params exp)) = Inr (exp_params exp)"
  shows "loadExperimentProfile J
           \<lparr>col_params = JSON_stringify J (exp_params exp),
            col_id = exp_id exp,
            col_execDuration = exp_execDuration exp,
            col_startTime = (case exp_startTime exp of None \<Rightarrow> None | Some d \<Rightarrow> Some (getTime d)),
            col_endTime = (case exp_endTime exp of None \<Rightarrow> None | Some d \<Rightarrow> Some (getTime d)),
            col_revision = exp_revision exp\<rparr> = Inr exp"
  using assms by (simp add: loadExperimentProfile_def split: option.splits)


text \<open>
  Claim C3, as amended. When the engine reports no error and the \<open>params\<close>
  column of every row of the experiment parses: \<open>queryExperimentProfile(id)\<close>
  resolves with the loaded rows whose \<open>id\<close> column equals \<open>id\<close>, each exactly as
  often as it is stored, ordered by the stored revision, largest first;
  \<open>queryExperimentProfile(id, revision)\<close> resolves with the loaded rows matching
  both \<open>id\<close> and \<open>revision\<close>, in table order. Nothing limits that list to one
  row: the store does not check that a revision is new.
\<close>

theorem queryExperimentProfile_rows:
  assumes "\<forall>r \<in> set (ExperimentProfile_table db). col_id r = experimentId \<longrightarrow>
             (\<exists>p. JSON_parse J (col_params r) = Inr p)"
  shows "(\<exists>rows profiles.
            queryExperimentProfile J None experimentId None db = Returns (Resolved (Data profiles)) \<and>
            map (loadExperimentProfile J) rows = map Inr profiles \<and>
            mset rows = mset (filter (\<lambda>r. col_id r = experimentId) (ExperimentProfile_table db)) \<and>
            sorted_wrt (\<lambda>a b. col_revision b \<le> col_revision a) rows \<and>
            sorted_wrt (\<lambda>p q. exp_revision q \<le> exp_revision p) profiles) \<and>
         (\<exists>profiles.
            queryExperimentProfile J None experimentId (Some revision) db = Returns (Resolved (Data profiles)) \<and>
            map (loadExperimentProfile J)
              (filter (\<lambda>r. col_id r = experimentId \<and> col_revision r = revision) (ExperimentProfile_table db))
              = map Inr profiles)"
  using query_by_id [OF assms] query_by_id_revision [of db experimentId revision J] assms
  by blast

theorem queryExperimentProfile_rows_witness:
  "list_all (\<lambda>r. \<not> isl (JSON_parse JSON_std (col_params r))) (ExperimentProfile_table example_profiles) \<and>
   queryExperimentProfile JSON_std None ''exp1'' None example_profiles
     = Returns (Resolved (Data [example_profile 3, example_profile 2, example_profile 1])) \<and>
   sorted_wrt (\<lambda>p q. exp_revision q \<le> exp_revision p) [example_profile 3, example_profile 2, example_profile 1] \<and>
   queryExperimentProfile JSON_std None ''exp1'' (Some 2) example_profiles
     = Returns (Resolved (Data [example_profile 2]))"
proof -
  have ok: "list_all (\<lambda>r. \<not> isl (JSON_parse JSON_std (col_params r))) (ExperimentProfile_table example_profiles)"
    by code_simp
  have all: "queryExperimentProfile JSON_std None ''exp1'' None example_profiles
     = Returns (Resolved (Data [example_profile 3, example_profile 2, example_profile 1]))"
    by code_simp
  have one: "queryExperimentProfile JSON_std None ''exp1'' (Some 2) example_profiles
     = Returns (Resolved (Data [example_profile 2]))"
    by code_simp
  have hyp: "\<forall>r \<in> set (ExperimentProfile_table example_profiles). col_id r = ''exp1'' \<longrightarrow>
             (\<exists>p. JSON_parse JSON_std (col_params r) = Inr p)"
    using ok by (rule parse_ok_from_list_all)
  have "\<exists>profiles. queryExperimentProfile JSON_std None ''exp1'' None example_profiles
           = Returns (Resolved (Data profiles)) \<and>
         sorted_wrt (\<lambda>p q. exp_revision q \<le> exp_revision p) profiles"
    using queryExperimentProfile_rows [OF hyp, of 2]
    by blast
  then have "sorted_wrt (\<lambda>p q. exp_revision q \<le> exp_revision p)
      [example_profile 3, example_profile 2, example_profile 1]"
    using all by auto
  then show ?thesis using ok all one by blast
qed


text \<open>
  Claim C3, as stated, fails: storing the same revision of one experiment twice
  gives a query by \<open>(id, revision)\<close> that resolves with two rows.
\<close>

theorem queryExperimentProfile_duplicate_revision:
  "queryExperimentProfile JSON_std None ''exp1'' (Some 1)
     (snd (storeExperimentProfile JSON_std None (example_profile 1)
        (snd (storeExperimentProfile JSON_std None (example_profile 1) empty_database))))
   = Returns (Resolved (Data [example_profile 1, example_profile 1])) \<and>
   length [example_profile 1, example_profile 1] = 2"
  by code_simp

text \<open>
  Claim C4. When the engine reports no error and the \<open>params\<close> column of every
  row of the experiment parses: if some row is stored for \<open>id\<close>,
  \<open>queryLatestExperimentProfile(id)\<close> is fulfilled with the first element of what
  \<open>queryExperimentProfile(id)\<close> resolves with, the loaded form of a stored row for
  \<open>id\<close> whose revision is the largest stored for \<open>id\<close>; if no row is stored
  for \<open>id\<close>, it is fulfilled with \<open>undefined\<close>, not rejected.
\<close>

theorem queryLatestExperimentProfile_max:
  assumes "\<forall>r \<in> set (ExperimentProfile_table db). col_id r = experimentId \<longrightarrow>
             (\<exists>p. JSON_parse J (col_params r) = Inr p)"
  shows "if \<exists>r \<in> set (ExperimentProfile_table db). col_id r = experimentId
         then \<exists>r p rest. queryLatestExperimentProfile J None experimentId db = Fulfilled (Some p) \<and>
                queryExperimentProfile J None experimentId None db = Returns (Resolved (Data (p # rest))) \<and>
                r \<in> set (ExperimentProfile_table db) \<and> col_id r = experimentId \<and>
                loadExperimentProfile J r = Inr p \<and>
                (\<forall>r' \<in> set (ExperimentProfile_table db).
                   col_id r' = experimentId \<longrightarrow> col_revision r' \<le> exp_revision p)
         else queryLatestExperimentProfile J None experimentId db = Fulfilled None"
proof -
  let ?tbl = "ExperimentProfile_table db"
  obtain rows profiles where
    q: "queryExperimentProfile J None experimentId None db = Returns (Resolved (Data profiles))"
    and l: "map (loadExperimentProfile J) rows = map Inr profiles"
    and ms: "mset rows = mset (filter (\<lambda>r. col_id r = experimentId) ?tbl)"
    and s: "sorted_wrt (\<lambda>a b. col_revision b \<le> col_revision a) rows"
    using query_by_id [OF assms] by blast
  have members: "set rows = {r \<in> set ?tbl. col_id r = experimentId}"
    using mset_eq_setD [OF ms] by simp
  show ?thesis
  proof (cases "\<exists>r \<in> set ?tbl. col_id r = experimentId")
    case False
    then have "set rows = {}" using members by simp
    then have "rows = []" by simp
    then have "profiles = []" using l by simp
    then show ?thesis using False q by (simp add: queryLatestExperimentProfile_def)
  next
    case True
    then have "rows \<noteq> []" using members by auto
    then obtain r rs where rows: "rows = r # rs" by (cases rows) auto
    then obtain p ps where ps: "profiles = p # ps" "loadExperimentProfile J r = Inr p"
      using l by (cases profiles) auto
    have latest: "queryLatestExperimentProfile J None experimentId db = Fulfilled (Some p)"
      using q ps(1) by (simp add: queryLatestExperimentProfile_def)
    have r: "r \<in> set ?tbl" "col_id r = experimentId"
      using members rows by auto
    have rev: "exp_revision p = col_revision r"
      using ps(2) by (simp add: loadExperimentProfile_fields)
    have "col_revision r' \<le> col_revision r" if "r' \<in> set ?tbl" "col_id r' = experimentId" for r'
    proof -
      have "r' \<in> set rows" using that members by simp
      then show ?thesis using s rows by auto
    qed
    then show ?thesis using True latest r ps rev q by auto
  qed
qed

theorem queryLatestExperimentProfile_max_witness:
  "list_all (\<lambda>r. \<not> isl (JSON_parse JSON_std (col_params r))) (ExperimentProfile_table example_profiles) \<and>
   queryLatestExperimentProfile JSON_std None ''exp1'' example_profiles = Fulfilled (Some (example_profile 3)) \<and>
   queryLatestExperimentProfile JSON_std None ''exp2'' example_profiles = Fulfilled None"
proof -
  have ok: "list_all (\<lambda>r. \<not> isl (JSON_parse JSON_std (col_params r))) (ExperimentProfile_table example_profiles)"
    by code_simp
  have none: "\<not> (\<exists>r \<in> set (ExperimentProfile_table example_profiles). col_id r = ''exp2'')"
    by code_simp
  have latest: "queryLatestExperimentProfile JSON_std None ''exp1'' example_profiles
      = Fulfilled (Some (example_profile 3))"
    by code_simp
  have hyp: "\<forall>r \<in> set (ExperimentProfile_table example_profiles). col_id r = ''exp2'' \<longrightarrow>
             (\<exists>p. JSON_parse JSON_std (col_params r) = Inr p)"
    using ok by (rule parse_ok_from_list_all)
  have "queryLatestExperimentProfile JSON_std None ''exp2'' example_profiles = Fulfilled None"
    using queryLatestExperimentProfile_max [OF hyp] none by simp
  then show ?thesis using ok latest by blast
qed


text \<open>
  Claim C5. Store a profile whose \<open>params\<close> survive \<open>JSON.stringify\<close> followed by
  \<open>JSON.parse\<close>, with no engine error, then query by its \<open>id\<close> and \<open>revision\<close>:
  the store promise resolves, and the query resolves with the rows that matched
  before followed by one record for the stored profile. That record has the
  stored \<open>params\<close> and \<open>revision\<close>, and it is the stored profile itself, so an
  omitted \<open>startTime\<close> or \<open>endTime\<close> is absent in it; in the table the omitted
  field is a NULL column.
\<close>

theorem store_then_query_profile:
  assumes "JSON_parse J (JSON_stringify J (exp_params exp)) = Inr (exp_params exp)"
    and "\<forall>r \<in> set (ExperimentProfile_table db).
           col_id r = exp_id exp \<and> col_revision r = exp_revision exp \<longrightarrow>
             (\<exists>p. JSON_parse J (col_params r) = Inr p)"
  shows "fst (storeExperimentProfile J None exp db) = Returns (Resolved Void) \<and>
         (\<exists>earlier stored.
            queryExperimentProfile J None (exp_id exp) (Some (exp_revision exp))
                (snd (storeExperimentProfile J None exp db))
              = Returns (Resolved (Data (earlier @ [stored]))) \<and>
            length earlier =
              length (filter (\<lambda>r. col_id r = exp_id exp \<and> col_revision r = exp_revision exp)
                        (ExperimentProfile_table db)) \<and>
            exp_params stored = exp_params exp \<and>
            exp_revision stored = exp_revision exp \<and>
            (exp_startTime exp = None \<longrightarrow> exp_startTime stored = None) \<and>
            (exp_endTime exp = None \<longrightarrow> exp_endTime stored = None) \<and>
            stored = exp) \<and>
         (exp_startTime exp = None \<longrightarrow>
            col_startTime (last (ExperimentProfile_table (snd (storeExperimentProfile J None exp db)))) = None) \<and>
         (exp_endTime exp = None \<longrightarrow>
            col_endTime (last (ExperimentProfile_table (snd (storeExperimentProfile J None exp db)))) = None)"
proof -
  let ?row = "\<lparr>col_params = JSON_stringify J (exp_params exp),
            col_id = exp_id exp,
            col_execDuration = exp_execDuration exp,
            col_startTime = (case exp_startTime exp of None \<Rightarrow> None | Some d \<Rightarrow> Some (getTime d)),
            col_endTime = (case exp_endTime exp of None \<Rightarrow> None | Some d \<Rightarrow> Some (getTime d)),
            col_revision = exp_revision exp\<rparr>"
  let ?db' = "snd (storeExperimentProfile J None exp db)"
  let ?match = "\<lambda>r. col_id r = exp_id exp \<and> col_revision r = exp_revision exp"
  have fst: "fst (storeExperimentProfile J None exp db) = Returns (Resolved Void)"
    by (simp add: storeExperimentProfile_def db_run_def resolve_def after_callback_def Deferred_resolve_def)
  have tbl: "ExperimentProfile_table ?db' = ExperimentProfile_table db @ [?row]"
    by (simp add: storeExperimentProfile_def db_run_def)
  have sel: "filter ?match (ExperimentProfile_table ?db') = filter ?match (ExperimentProfile_table db) @ [?row]"
    by (simp add: tbl)
  obtain earlier where e: "map (loadExperimentProfile J) (filter ?match (ExperimentProfile_table db)) = map Inr earlier"
    using loaders_total [of "filter ?match (ExperimentProfile_table db)" "loadExperimentProfile J"] assms(2)
    by (auto intro: loadExperimentProfile_total)
  have m: "map (loadExperimentProfile J) (filter ?match (ExperimentProfile_table ?db')) = map Inr (earlier @ [exp])"
    using e load_stored_profile [OF assms(1)] by (simp only: sel map_append list.map)
  have q: "queryExperimentProfile J None (exp_id exp) (Some (exp_revision exp)) ?db'
      = Returns (Resolved (Data (earlier @ [exp])))"
    using resolve_loaded [OF m] by (simp add: queryExperimentProfile_def db_all_def sql_where_def)
  have len: "length earlier = length (filter ?match (ExperimentProfile_table db))"
    using e by (metis length_map)
  have nulls: "(exp_startTime exp = None \<longrightarrow> col_startTime (last (ExperimentProfile_table ?db')) = None) \<and>
      (exp_endTime exp = None \<longrightarrow> col_endTime (last (ExperimentProfile_table ?db')) = None)"
    by (simp add: tbl)
  show ?thesis
    using fst q len nulls by blast
qed

theorem store_then_query_profile_witness:
  "JSON_parse JSON_std (JSON_stringify JSON_std (exp_params (example_profile 1))) = Inr (exp_params (example_profile 1)) \<and>
   queryExperimentProfile JSON_std None ''exp1'' (Some 1)
       (snd (storeExperimentProfile JSON_std None (example_profile 1) empty_database))
     = Returns (Resolved (Data [example_profile 1])) \<and>
   exp_endTime (example_profile 1) = None \<and>
   col_endTime (last (ExperimentProfile_table
       (snd (storeExperimentProfile JSON_std None (example_profile 1) empty_database)))) = None"
proof -
  have rt: "JSON_parse JSON_std (JSON_stringify JSON_std (exp_params (example_profile 1)))
      = Inr (exp_params (example_profile 1))"
    by code_simp
  have old: "\<forall>r \<in> set (ExperimentProfile_table empty_database).
           col_id r = exp_id (example_profile 1) \<and> col_revision r = exp_revision (example_profile 1) \<longrightarrow>
             (\<exists>p. JSON_parse JSON_std (col_params r) = Inr p)"
    by (simp add: empty_database_def)
  have id: "exp_id (example_profile 1) = ''exp1''" "exp_revision (example_profile 1) = 1"
    "exp_endTime (example_profile 1) = None"
    by (simp_all add: example_profile_def)
  have "length (filter (\<lambda>r. col_id r = exp_id (example_profile 1) \<and> col_revision r = exp_revision (example_profile 1))
                        (ExperimentProfile_table empty_database)) = 0"
    by (simp add: empty_database_def)
  then show ?thesis
    using store_then_query_profile [OF rt old] rt id by auto
qed


section \<open>Trial-job events and metric data\<close>

lemma loadMetricData_total:
  "map loadMetricData rows = map Inr (map (projr \<circ> loadMetricData) rows)"
  by (simp add: loadMetricData_def)

lemma select_MetricData:
  "after_callback (resolve Pending None (Some rows) (Some loadMetricData))
     = Returns (Resolved (Data (map (projr \<circ> loadMetricData) rows)))"
  by (rule resolve_loaded [OF loadMetricData_total])

lemma member_of_object: "member_of json k = Some v \<Longrightarrow> \<exists>kvs. json = JObject kvs"
  by (cases json) simp_all

lemma storeMetricData_inserts:
  "JSON_parse J data = Inr json \<Longrightarrow> json \<noteq> JNull \<Longrightarrow>
     storeMetricData J now None trialJobId data db
       = (Returns (Resolved Void), db\<lparr>MetricData_table := MetricData_table db @ [metric_args J now json]\<rparr>)"
  by (cases json)
    (simp_all add: storeMetricData_def db_run_def resolve_def after_callback_def Deferred_resolve_def)

lemma select_TrialJobEvent_records:
  "after_callback (resolve Pending None (Some rows) (Some loadTrialJobEvent))
     = Returns (Resolved (Data (map (\<lambda>r.
         \<lparr>ev_timestamp = Date (tcol_timestamp r), ev_trialJobId = tcol_trialJobId r,
          ev_event = tcol_event r, ev_data = tcol_data r, ev_logPath = tcol_logPath r\<rparr>) rows)))"
proof (rule resolve_loaded)
  show "map loadTrialJobEvent rows = map Inr (map (\<lambda>r.
         \<lparr>ev_timestamp = Date (tcol_timestamp r), ev_trialJobId = tcol_trialJobId r,
          ev_event = tcol_event r, ev_data = tcol_data r, ev_logPath = tcol_logPath r\<rparr>) rows)"
    by (simp add: loadTrialJobEvent_def split: option.splits)
qed

lemma select_MetricData_records:
  "after_callback (resolve Pending None (Some rows) (Some loadMetricData))
     = Returns (Resolved (Data (map (\<lambda>r.
         \<lparr>md_timestamp = Date (mcol_timestamp r), md_trialJobId = mcol_trialJobId r,
          md_parameterId = mcol_parameterId r, md_type = mcol_type r,
          md_sequence = mcol_sequence r, md_data = mcol_data r\<rparr>) rows)))"
proof (rule resolve_loaded)
  show "map loadMetricData rows = map Inr (map (\<lambda>r.
         \<lparr>md_timestamp = Date (mcol_timestamp r), md_trialJobId = mcol_trialJobId r,
          md_parameterId = mcol_parameterId r, md_type = mcol_type r,
          md_sequence = mcol_sequence r, md_data = mcol_data r\<rparr>) rows)"
    by (simp add: loadMetricData_def)
qed

text \<open>
  Claim C7. When the engine reports no error, \<open>queryTrialJobEvent\<close> resolves with
  one record for each selected row, in table order, and each record carries its
  row's columns: \<open>timestamp\<close> as a date, \<open>trialJobId\<close>, \<open>event\<close>, and \<open>data\<close> and
  \<open>logPath\<close> absent where the column is NULL. The selected rows are all rows when
  neither filter is given, those whose \<open>event\<close> column equals \<open>event\<close> when only
  \<open>event\<close> is given, those whose \<open>trialJobId\<close> column equals \<open>trialJobId\<close> when only
  \<open>trialJobId\<close> is given, and those matching both when both are given, so every
  returned record has the \<open>trialJobId\<close> and \<open>event\<close> asked for.
  \<open>queryMetricData\<close> does the same over \<open>trialJobId\<close> and \<open>type\<close>, each record
  carrying its row's six columns.
\<close>

theorem query_four_shapes:
  "queryTrialJobEvent None None None db
     = Returns (Resolved (Data (map
           (\<lambda>r. \<lparr>ev_timestamp = Date (tcol_timestamp r), ev_trialJobId = tcol_trialJobId r,
                 ev_event = tcol_event r, ev_data = tcol_data r, ev_logPath = tcol_logPath r\<rparr>)
           (TrialJobEvent_table db)))) \<and>
   queryTrialJobEvent None None (Some event) db
     = Returns (Resolved (Data (map
           (\<lambda>r. \<lparr>ev_timestamp = Date (tcol_timestamp r), ev_trialJobId = tcol_trialJobId r,
                 ev_event = tcol_event r, ev_data = tcol_data r, ev_logPath = tcol_logPath r\<rparr>)
           (filter (\<lambda>r. tcol_event r = event) (TrialJobEvent_table db))))) \<and>
   queryTrialJobEvent None (Some trialJobId) None db
     = Returns (Resolved (Data (map
           (\<lambda>r. \<lparr>ev_timestamp = Date (tcol_timestamp r), ev_trialJobId = tcol_trialJobId r,
                 ev_event = tcol_event r, ev_data = tcol_data r, ev_logPath = tcol_logPath r\<rparr>)
           (filter (\<lambda>r. tcol_trialJobId r = trialJobId) (TrialJobEvent_table db))))) \<and>
   queryTrialJobEvent None (Some trialJobId) (Some event) db
     = Returns (Resolved (Data (map
           (\<lambda>r. \<lparr>ev_timestamp = Date (tcol_timestamp r), ev_trialJobId = tcol_trialJobId r,
                 ev_event = tcol_event r, ev_data = tcol_data r, ev_logPath = tcol_logPath r\<rparr>)
           (filter (\<lambda>r. tcol_trialJobId r = trialJobId \<and> tcol_event r = event) (TrialJobEvent_table db))))) \<and>
   queryMetricData None None None db
     = Returns (Resolved (Data (map
           (\<lambda>r. \<lparr>md_timestamp = Date (mcol_timestamp r), md_trialJobId = mcol_trialJobId r,
                 md_parameterId = mcol_parameterId r, md_type = mcol_type r,
                 md_sequence = mcol_sequence r, md_data = mcol_data r\<rparr>)
           (MetricData_table db)))) \<and>
   queryMetricData None None (Some metricType) db
     = Returns (Resolved (Data (map
           (\<lambda>r. \<lparr>md_timestamp = Date (mcol_timestamp r), md_trialJobId = mcol_trialJobId r,
                 md_parameterId = mcol_parameterId r, md_type = mcol_type r,
                 md_sequence = mcol_sequence r, md_data = mcol_data r\<rparr>)
           (filter (\<lambda>r. mcol_type r = SText metricType) (MetricData_table db))))) \<and>
   queryMetricData None (Some trialJobId) None db
     = Returns (Resolved (Data (map
           (\<lambda>r. \<lparr>md_timestamp = Date (mcol_timestamp r), md_trialJobId = mcol_trialJobId r,
                 md_parameterId = mcol_parameterId r, md_type = mcol_type r,
                 md_sequence = mcol_sequence r, md_data = mcol_data r\<rparr>)
           (filter (\<lambda>r. mcol_trialJobId r = SText trialJobId) (MetricData_table db))))) \<and>
   queryMetricData None (Some trialJobId) (Some metricType) db
     = Returns (Resolved (Data (map
           (\<lambda>r. \<lparr>md_timestamp = Date (mcol_timestamp r), md_trialJobId = mcol_trialJobId r,
                 md_parameterId = mcol_parameterId r, md_type = mcol_type r,
                 md_sequence = mcol_sequence r, md_data = mcol_data r\<rparr>)
           (filter (\<lambda>r. mcol_trialJobId r = SText trialJobId \<and> mcol_type r = SText metricType) (MetricData_table db)))))"
proof (intro conjI)
  show "queryTrialJobEvent None None None db
       = Returns (Resolved (Data (map
             (\<lambda>r. \<lparr>ev_timestamp = Date (tcol_timestamp r), ev_trialJobId = tcol_trialJobId r,
                 ev_event = tcol_event r, ev_data = tcol_data r, ev_logPath = tcol_logPath r\<rparr>)
             (TrialJobEvent_table db))))"
    by (simp add: queryTrialJobEvent_def db_all_def select_TrialJobEvent_records)
  show "queryTrialJobEvent None None (Some event) db
       = Returns (Resolved (Data (map
             (\<lambda>r. \<lparr>ev_timestamp = Date (tcol_timestamp r), ev_trialJobId = tcol_trialJobId r,
                 ev_event = tcol_event r, ev_data = tcol_data r, ev_logPath = tcol_logPath r\<rparr>)
             (filter (\<lambda>r. tcol_event r = event) (TrialJobEvent_table db)))))"
    by (simp add: queryTrialJobEvent_def db_all_def sql_where_def select_TrialJobEvent_records)
  show "queryTrialJobEvent None (Some trialJobId) None db
       = Returns (Resolved (Data (map
             (\<lambda>r. \<lparr>ev_timestamp = Date (tcol_timestamp r), ev_trialJobId = tcol_trialJobId r,
                 ev_event = tcol_event r, ev_data = tcol_data r, ev_logPath = tcol_logPath r\<rparr>)
             (filter (\<lambda>r. tcol_trialJobId r = trialJobId) (TrialJobEvent_table db)))))"
    by (simp add: queryTrialJobEvent_def db_all_def sql_where_def select_TrialJobEvent_records)
  show "queryTrialJobEvent None (Some trialJobId) (Some event) db
       = Returns (Resolved (Data (map
             (\<lambda>r. \<lparr>ev_timestamp = Date (tcol_timestamp r), ev_trialJobId = tcol_trialJobId r,
                 ev_event = tcol_event r, ev_data = tcol_data r, ev_logPath = tcol_logPath r\<rparr>)
             (filter (\<lambda>r. tcol_trialJobId r = trialJobId \<and> tcol_event r = event) (TrialJobEvent_table db)))))"
    by (simp add: queryTrialJobEvent_def db_all_def sql_where_def select_TrialJobEvent_records)
  show "queryMetricData None None None db
       = Returns (Resolved (Data (map
             (\<lambda>r. \<lparr>md_timestamp = Date (mcol_timestamp r), md_trialJobId = mcol_trialJobId r,
                 md_parameterId = mcol_parameterId r, md_type = mcol_type r,
                 md_sequence = mcol_sequence r, md_data = mcol_data r\<rparr>)
             (MetricData_table db))))"
    by (simp add: queryMetricData_def db_all_def select_MetricData_records)
  show "queryMetricData None None (Some metricType) db
       = Returns (Resolved (Data (map
             (\<lambda>r. \<lparr>md_timestamp = Date (mcol_timestamp r), md_trialJobId = mcol_trialJobId r,
                 md_parameterId = mcol_parameterId r, md_type = mcol_type r,
                 md_sequence = mcol_sequence r, md_data = mcol_data r\<rparr>)
             (filter (\<lambda>r. mcol_type r = SText metricType) (MetricData_table db)))))"
    by (simp add: queryMetricData_def db_all_def sql_where_def select_MetricData_records)
  show "queryMetricData None (Some trialJobId) None db
       = Returns (Resolved (Data (map
             (\<lambda>r. \<lparr>md_timestamp = Date (mcol_timestamp r), md_trialJobId = mcol_trialJobId r,
                 md_parameterId = mcol_parameterId r, md_type = mcol_type r,
                 md_sequence = mcol_sequence r, md_data = mcol_data r\<rparr>)
             (filter (\<lambda>r. mcol_trialJobId r = SText trialJobId) (MetricData_table db)))))"
    by (simp add: queryMetricData_def db_all_def sql_where_def select_MetricData_records)
  show "queryMetricData None (Some trialJobId) (Some metricType) db
       = Returns (Resolved (Data (map
             (\<lambda>r. \<lparr>md_timestamp = Date (mcol_timestamp r), md_trialJobId = mcol_trialJobId r,
                 md_parameterId = mcol_parameterId r, md_type = mcol_type r,
                 md_sequence = mcol_sequence r, md_data = mcol_data r\<rparr>)
             (filter (\<lambda>r. mcol_trialJobId r = SText trialJobId \<and> mcol_type r = SText metricType) (MetricData_table db)))))"
    by (simp add: queryMetricData_def db_all_def sql_where_def select_MetricData_records)
qed

theorem query_four_shapes_witness:
  "queryTrialJobEvent None None None example_events
     = Returns (Resolved (Data
        [\<lparr>ev_timestamp = Date 1001, ev_trialJobId = ''t1'', ev_event = ''RUNNING'',
          ev_data = None, ev_logPath = None\<rparr>,
         \<lparr>ev_timestamp = Date 1002, ev_trialJobId = ''t1'', ev_event = ''SUCCEEDED'',
          ev_data = Some ''done'', ev_logPath = None\<rparr>,
         \<lparr>ev_timestamp = Date 1003, ev_trialJobId = ''t2'', ev_event = ''RUNNING'',
          ev_data = None, ev_logPath = None\<rparr>])) \<and>
   queryTrialJobEvent None None (Some ''RUNNING'') example_events
     = Returns (Resolved (Data
        [\<lparr>ev_timestamp = Date 1001, ev_trialJobId = ''t1'', ev_event = ''RUNNING'',
          ev_data = None, ev_logPath = None\<rparr>,
         \<lparr>ev_timestamp = Date 1003, ev_trialJobId = ''t2'', ev_event = ''RUNNING'',
          ev_data = None, ev_logPath = None\<rparr>])) \<and>
   queryTrialJobEvent None (Some ''t1'') None example_events
     = Returns (Resolved (Data
        [\<lparr>ev_timestamp = Date 1001, ev_trialJobId = ''t1'', ev_event = ''RUNNING'',
          ev_data = None, ev_logPath = None\<rparr>,
         \<lparr>ev_timestamp = Date 1002, ev_trialJobId = ''t1'', ev_event = ''SUCCEEDED'',
          ev_data = Some ''done'', ev_logPath = None\<rparr>])) \<and>
   queryTrialJobEvent None (Some ''t1'') (Some ''SUCCEEDED'') example_events
     = Returns (Resolved (Data
        [\<lparr>ev_timestamp = Date 1002, ev_trialJobId = ''t1'', ev_event = ''SUCCEEDED'',
          ev_data = Some ''done'', ev_logPath = None\<rparr>])) \<and>
   queryMetricData None None None example_metrics
     = Returns (Resolved (Data
        [\<lparr>md_timestamp = Date 2001, md_trialJobId = SText ''t1'', md_parameterId = SText ''0'',
          md_type = SText ''PERIODICAL'', md_sequence = SInteger 0, md_data = Some ''5''\<rparr>,
         \<lparr>md_timestamp = Date 2002, md_trialJobId = SText ''t1'', md_parameterId = SText ''0'',
          md_type = SText ''FINAL'', md_sequence = SInteger 0, md_data = Some ''9''\<rparr>,
         \<lparr>md_timestamp = Date 2003, md_trialJobId = SText ''t2'', md_parameterId = SText ''1'',
          md_type = SText ''PERIODICAL'', md_sequence = SInteger 0, md_data = Some ''3''\<rparr>])) \<and>
   queryMetricData None None (Some ''PERIODICAL'') example_metrics
     = Returns (Resolved (Data
        [\<lparr>md_timestamp = Date 2001, md_trialJobId = SText ''t1'', md_parameterId = SText ''0'',
          md_type = SText ''PERIODICAL'', md_sequence = SInteger 0, md_data = Some ''5''\<rparr>,
         \<lparr>md_timestamp = Date 2003, md_trialJobId = SText ''t2'', md_parameterId = SText ''1'',
          md_type = SText ''PERIODICAL'', md_sequence = SInteger 0, md_data = Some ''3''\<rparr>])) \<and>
   queryMetricData None (Some ''t1'') None example_metrics
     = Returns (Resolved (Data
        [\<lparr>md_timestamp = Date 2001, md_trialJobId = SText ''t1'', md_parameterId = SText ''0'',
          md_type = SText ''PERIODICAL'', md_sequence = SInteger 0, md_data = Some ''5''\<rparr>,
         \<lparr>md_timestamp = Date 2002, md_trialJobId = SText ''t1'', md_parameterId = SText ''0'',
          md_type = SText ''FINAL'', md_sequence = SInteger 0, md_data = Some ''9''\<rparr>])) \<and>
   queryMetricData None (Some ''t1'') (Some ''FINAL'') example_metrics
     = Returns (Resolved (Data
        [\<lparr>md_timestamp = Date 2002, md_trialJobId = SText ''t1'', md_parameterId = SText ''0'',
          md_type = SText ''FINAL'', md_sequence = SInteger 0, md_data = Some ''9''\<rparr>]))"
proof -
  have t: "TrialJobEvent_table example_events =
      [\<lparr>tcol_timestamp = 1001, tcol_trialJobId = ''t1'', tcol_event = ''RUNNING'', tcol_data = None, tcol_logPath = None\<rparr>,
       \<lparr>tcol_timestamp = 1002, tcol_trialJobId = ''t1'', tcol_event = ''SUCCEEDED'', tcol_data = Some ''done'', tcol_logPath = None\<rparr>,
       \<lparr>tcol_timestamp = 1003, tcol_trialJobId = ''t2'', tcol_event = ''RUNNING'', tcol_data = None, tcol_logPath = None\<rparr>]"
    by code_simp
  have m: "MetricData_table example_metrics =
      [\<lparr>mcol_timestamp = 2001, mcol_trialJobId = SText ''t1'', mcol_parameterId = SText ''0'',
        mcol_type = SText ''PERIODICAL'', mcol_sequence = SInteger 0, mcol_data = Some ''5''\<rparr>,
       \<lparr>mcol_timestamp = 2002, mcol_trialJobId = SText ''t1'', mcol_parameterId = SText ''0'',
        mcol_type = SText ''FINAL'', mcol_sequence = SInteger 0, mcol_data = Some ''9''\<rparr>,
       \<lparr>mcol_timestamp = 2003, mcol_trialJobId = SText ''t2'', mcol_parameterId = SText ''1'',
        mcol_type = SText ''PERIODICAL'', mcol_sequence = SInteger 0, mcol_data = Some ''3''\<rparr>]"
    by code_simp
  show ?thesis
    using query_four_shapes [where db = example_events and event = "''RUNNING''" and trialJobId = "''t1''"]
      query_four_shapes [where db = example_events and event = "''SUCCEEDED''" and trialJobId = "''t1''"]
      query_four_shapes [where db = example_metrics and metricType = "''PERIODICAL''" and trialJobId = "''t1''"]
      query_four_shapes [where db = example_metrics and metricType = "''FINAL''" and trialJobId = "''t1''"]
    by (simp add: t m)
qed

text \<open>
  Claim C6, as amended. When \<open>JSON.parse\<close> throws on the input string,
  \<open>storeMetricData\<close> throws that exception itself, before any promise exists, and
  the tables are unchanged, whatever the engine would have done. An envelope
  that parses to a value other than \<open>null\<close> is not validated: with no engine error
  one row is appended, a missing field as NULL, and the promise resolves.
\<close>

theorem storeMetricData_unparseable:
  "(JSON_parse J data = Inl ex \<longrightarrow>
      storeMetricData J now fault trialJobId data db = (Throws ex, db)) \<and>
   (JSON_parse J data = Inr json \<and> json \<noteq> JNull \<longrightarrow>
      storeMetricData J now None trialJobId data db
        = (Returns (Resolved Void),
           db\<lparr>MetricData_table := MetricData_table db @ [metric_args J now json]\<rparr>))"
  by (simp add: storeMetricData_inserts) (simp add: storeMetricData_def)

theorem storeMetricData_unparseable_witness:
  \<open>JSON_parse JSON_std ''not valid json'' = Inl SyntaxError \<and>
   storeMetricData JSON_std 1700 (Some (SqliteError ''SQLITE_FULL'')) ''t1'' ''not valid json'' empty_database
     = (Throws SyntaxError, empty_database) \<and>
   JSON_parse JSON_std ''{"type":"FINAL"}'' = Inr (JObject [(''type'', JString ''FINAL'')]) \<and>
   storeMetricData JSON_std 1700 None ''t1'' ''{"type":"FINAL"}'' empty_database
     = (Returns (Resolved Void),
        empty_database\<lparr>MetricData_table :=
          [\<lparr>mcol_timestamp = 1700, mcol_trialJobId = SNull, mcol_parameterId = SNull,
            mcol_type = SText ''FINAL'', mcol_sequence = SNull, mcol_data = None\<rparr>]\<rparr>)\<close>
proof -
  have p: "JSON_parse JSON_std ''not valid json'' = Inl SyntaxError"
    by code_simp
  have q: \<open>JSON_parse JSON_std ''{"type":"FINAL"}'' = Inr (JObject [(''type'', JString ''FINAL'')])\<close>
    by code_simp
  have a: "metric_args JSON_std 1700 (JObject [(''type'', JString ''FINAL'')])
      = \<lparr>mcol_timestamp = 1700, mcol_trialJobId = SNull, mcol_parameterId = SNull,
         mcol_type = SText ''FINAL'', mcol_sequence = SNull, mcol_data = None\<rparr>"
    by (simp add: metric_args_def)
  have e: "MetricData_table empty_database = []"
    by (simp add: empty_database_def)
  show ?thesis
    using storeMetricData_unparseable [of JSON_std "''not valid json''" SyntaxError 1700
        "Some (SqliteError ''SQLITE_FULL'')" "''t1''" empty_database]
      storeMetricData_unparseable [of JSON_std \<open>''{"type":"FINAL"}''\<close> _ 1700 _ "''t1''" empty_database
        "JObject [(''type'', JString ''FINAL'')]"]
      p q
    by (simp add: a e)
qed

text \<open>
  Claim C6, as stated, fails twice. The envelope \<open>{}\<close> parses and lacks every
  field, yet the call resolves and the table gains a row of NULLs. And on an
  unparseable string no promise is rejected: the call throws.
\<close>

theorem storeMetricData_no_validation:
  \<open>storeMetricData JSON_std 1700 None ''t1'' ''{}'' empty_database =
     (Returns (Resolved Void),
      \<lparr>ExperimentProfile_table = [], TrialJobEvent_table = [],
       MetricData_table =
         [\<lparr>mcol_timestamp = 1700, mcol_trialJobId = SNull, mcol_parameterId = SNull,
           mcol_type = SNull, mcol_sequence = SNull, mcol_data = None\<rparr>]\<rparr>) \<and>
   fst (storeMetricData JSON_std 1700 None ''t1'' ''not valid json'' empty_database) = Throws SyntaxError\<close>
  by code_simp

text \<open>
  Claim C9. The first parameter of \<open>storeMetricData\<close> has no effect: two calls
  that differ only in it return the same and leave the same tables. The
  \<open>trialJobId\<close> column of the inserted row is what the parsed envelope holds under
  \<open>trialJobId\<close>.
\<close>

theorem storeMetricData_ignores_trialJobId:
  "storeMetricData J now fault trialJobId1 data db = storeMetricData J now fault trialJobId2 data db \<and>
   (JSON_parse J data = Inr json \<and> json \<noteq> JNull \<longrightarrow>
      mcol_trialJobId (last (MetricData_table (snd (storeMetricData J now None trialJobId1 data db))))
        = bind_parameter (member_of json ''trialJobId''))"
  by (simp add: storeMetricData_inserts metric_args_def) (simp add: storeMetricData_def)

theorem storeMetricData_ignores_trialJobId_witness:
  \<open>JSON_parse JSON_std ''{"trialJobId":"t1","data":7}''
     = Inr (JObject [(''trialJobId'', JString ''t1''), (''data'', JNumber 7)]) \<and>
   storeMetricData JSON_std 1700 None ''t2'' ''{"trialJobId":"t1","data":7}'' empty_database
     = storeMetricData JSON_std 1700 None ''t3'' ''{"trialJobId":"t1","data":7}'' empty_database \<and>
   mcol_trialJobId (last (MetricData_table
       (snd (storeMetricData JSON_std 1700 None ''t2'' ''{"trialJobId":"t1","data":7}'' empty_database))))
     = SText ''t1''\<close>
proof -
  have p: \<open>JSON_parse JSON_std ''{"trialJobId":"t1","data":7}''
     = Inr (JObject [(''trialJobId'', JString ''t1''), (''data'', JNumber 7)])\<close>
    by code_simp
  have b: "bind_parameter (member_of (JObject [(''trialJobId'', JString ''t1''), (''data'', JNumber 7)])
      ''trialJobId'') = SText ''t1''"
    by simp
  have n: "JObject [(''trialJobId'', JString ''t1''), (''data'', JNumber 7)] \<noteq> JNull"
    by simp
  show ?thesis
    using storeMetricData_ignores_trialJobId [of JSON_std 1700 None "''t2''"
        \<open>''{"trialJobId":"t1","data":7}''\<close> empty_database "''t3''"
        "JObject [(''trialJobId'', JString ''t1''), (''data'', JNumber 7)]"] p n
    unfolding b by blast
qed

text \<open>
  Claim C10. For an envelope that parses to an object with a \<open>data\<close> member,
  stored with no engine error: the store promise resolves, and
  \<open>queryMetricData()\<close> then resolves with the records of the earlier rows followed
  by one for the new row, whose \<open>data\<close> field is the string
  \<open>JSON.stringify\<close> made of the payload, not the payload.
\<close>

theorem metric_payload_stored_as_text:
  assumes "JSON_parse J data = Inr json"
    and "member_of json ''data'' = Some payload"
  shows "fst (storeMetricData J now None trialJobId data db) = Returns (Resolved Void) \<and>
         (\<exists>earlier stored.
            queryMetricData None None None (snd (storeMetricData J now None trialJobId data db))
              = Returns (Resolved (Data (earlier @ [stored]))) \<and>
            length earlier = length (MetricData_table db) \<and>
            md_data stored = Some (JSON_stringify J payload))"
proof -
  have "json \<noteq> JNull"
    using assms(2) by auto
  then have st: "storeMetricData J now None trialJobId data db
      = (Returns (Resolved Void), db\<lparr>MetricData_table := MetricData_table db @ [metric_args J now json]\<rparr>)"
    using assms(1) by (simp add: storeMetricData_inserts)
  let ?row = "metric_args J now json"
  have q: "queryMetricData None None None (snd (storeMetricData J now None trialJobId data db))
      = Returns (Resolved (Data (map (projr \<circ> loadMetricData) (MetricData_table db)
           @ [projr (loadMetricData ?row)])))"
    by (simp add: st queryMetricData_def db_all_def select_MetricData)
  have d: "md_data (projr (loadMetricData ?row)) = Some (JSON_stringify J payload)"
    using assms(2) by (simp add: loadMetricData_def metric_args_def)
  have "length (map (projr \<circ> loadMetricData) (MetricData_table db)) = length (MetricData_table db)"
    by simp
  with st q d show ?thesis by (metis fst_conv)
qed

theorem metric_payload_stored_as_text_witness:
  \<open>JSON_parse JSON_std ''{"trialJobId":"t1","parameterId":"0","type":"FINAL","sequence":0,"data":{"acc":9}}''
     = Inr (JObject [(''trialJobId'', JString ''t1''), (''parameterId'', JString ''0''),
                     (''type'', JString ''FINAL''), (''sequence'', JNumber 0),
                     (''data'', JObject [(''acc'', JNumber 9)])]) \<and>
   (\<exists>stored.
      queryMetricData None None None
        (snd (storeMetricData JSON_std 1700 None ''unused''
                ''{"trialJobId":"t1","parameterId":"0","type":"FINAL","sequence":0,"data":{"acc":9}}''
                empty_database))
        = Returns (Resolved (Data [stored])) \<and>
      md_data stored = Some ''{"acc":9}'')\<close>
proof -
  let ?data = \<open>''{"trialJobId":"t1","parameterId":"0","type":"FINAL","sequence":0,"data":{"acc":9}}''\<close>
  let ?json = "JObject [(''trialJobId'', JString ''t1''), (''parameterId'', JString ''0''),
                     (''type'', JString ''FINAL''), (''sequence'', JNumber 0),
                     (''data'', JObject [(''acc'', JNumber 9)])]"
  have p: "JSON_parse JSON_std ?data = Inr ?json"
    by code_simp
  have m: "member_of ?json ''data'' = Some (JObject [(''acc'', JNumber 9)])"
    by simp
  have s: \<open>JSON_stringify JSON_std (JObject [(''acc'', JNumber 9)]) = ''{"acc":9}''\<close>
    by code_simp
  have e: "length (MetricData_table empty_database) = 0"
    by (simp add: empty_database_def)
  show ?thesis
    using metric_payload_stored_as_text [OF p m, of 1700 "''unused''" empty_database] p
    by (auto simp: s e)
qed

end
